theory Spec2Isabelle
  imports Complex_Main "HOL-Library.Sublist"
begin

section \<open>Segment-skip playback engine (VideoPlayer component)\<close>

text \<open>
  Times and playback rates are JavaScript numbers. The component only compares them
  (\<open>>=\<close>, \<open><\<close>, \<open>===\<close>) and copies them; it never does arithmetic on them. Every finite
  double is a rational number and the comparisons of finite doubles are exact, so the
  numbers are modelled as \<^typ>\<open>rat\<close>. The model covers finite numbers only: \<open>NaN\<close> cannot come out of
  JSON or out of the position of the media element, and a segment bound that is too large
  for a double, which \<open>JSON.parse\<close> reads as \<open>Infinity\<close>, is outside the model.
\<close>

record SkipSegment =
  start :: rat
  end' :: rat
  reason :: string

text \<open>
  The \<open><video>\<close> element behind \<open>videoRef.current\<close>. \<open>seekLog\<close> is a history variable: every
  assignment the component makes to \<open>currentTime\<close> is appended to it, so that the number of
  jumps a handler performs can be read off the state.
\<close>

record video_element =
  el_currentTime :: rat
  el_playbackRate :: rat
  seekLog :: "rat list"

text \<open>
  The component's \<open>useState\<close> variables that the handlers below touch, the ref to the
  element (\<open>None\<close> while it is not mounted), and the number of pending 800 ms
  feedback-reset timers.
\<close>

record player =
  videoRef :: "video_element option"
  currentTime :: rat
  playbackRate :: rat
  smartSkipEnabled :: bool
  isSkipping :: bool
  skipReason :: "string option"
  resetTimers :: nat

text \<open>The predicate given to \<open>skipSegments.find\<close>: \<open>seg => time >= seg.start && time < seg.end\<close>.\<close>

definition in_segment :: "rat \<Rightarrow> SkipSegment \<Rightarrow> bool" where
  "in_segment time seg \<longleftrightarrow> time \<ge> start seg \<and> time < end' seg"

text \<open>\<open>handleTimeUpdate\<close>, the \<open>onTimeUpdate\<close> handler (\<open>Array.prototype.find\<close> is \<^const>\<open>find\<close>).\<close>

definition handleTimeUpdate :: "SkipSegment list \<Rightarrow> player \<Rightarrow> player" where
  "handleTimeUpdate skipSegments s =
     (case videoRef s of
        None \<Rightarrow> s
      | Some v \<Rightarrow>
          let time = el_currentTime v;
              s1 = s\<lparr>currentTime := time\<rparr>
          in if smartSkipEnabled s \<and> length skipSegments > 0 then
               (case find (in_segment time) skipSegments of
                  None \<Rightarrow> s1
                | Some currentSegment \<Rightarrow>
                    s1\<lparr>isSkipping := True,
                       skipReason := Some (reason currentSegment),
                       videoRef := Some (v\<lparr>el_currentTime := end' currentSegment,
                                           seekLog := seekLog v @ [end' currentSegment]\<rparr>),
                       resetTimers := resetTimers s1 + 1\<rparr>)
             else s1)"

text \<open>The callback of the 800 ms timer: it clears the visual feedback only.\<close>

definition feedbackReset :: "player \<Rightarrow> player" where
  "feedbackReset s = s\<lparr>isSkipping := False, skipReason := None, resetTimers := resetTimers s - 1\<rparr>"

text \<open>The jumps performed so far on the element (none while it is not mounted).\<close>

definition seeks :: "player \<Rightarrow> rat list" where
  "seeks s = (case videoRef s of None \<Rightarrow> [] | Some v \<Rightarrow> seekLog v)"

text \<open>The play head as the element reports it.\<close>

definition position :: "player \<Rightarrow> rat option" where
  "position s = map_option el_currentTime (videoRef s)"

subsection \<open>Speed and mode controls\<close>

text \<open>Writing \<open>videoRef.current.playbackRate\<close> when the element is mounted.\<close>

definition setElementRate :: "rat \<Rightarrow> video_element option \<Rightarrow> video_element option" where
  "setElementRate speed r = map_option (\<lambda>v. v\<lparr>el_playbackRate := speed\<rparr>) r"

definition changeSpeed :: "rat \<Rightarrow> player \<Rightarrow> player" where
  "changeSpeed speed s = s\<lparr>playbackRate := speed, videoRef := setElementRate speed (videoRef s)\<rparr>"

definition toggleSmartSkip :: "player \<Rightarrow> player" where
  "toggleSmartSkip s = s\<lparr>smartSkipEnabled := \<not> smartSkipEnabled s\<rparr>"

text \<open>The earlier revision of the "Smart x2" button: a one-way activation.\<close>

definition activateSmartTurbo :: "player \<Rightarrow> player" where
  "activateSmartTurbo s =
     s\<lparr>playbackRate := 2, smartSkipEnabled := True, videoRef := setElementRate 2 (videoRef s)\<rparr>"

text \<open>\<open>const isTurboActive = playbackRate === 2.0 && smartSkipEnabled\<close>.\<close>

definition isTurboActive :: "player \<Rightarrow> bool" where
  "isTurboActive s \<longleftrightarrow> playbackRate s = 2 \<and> smartSkipEnabled s"

text \<open>The later revision of the button, \<open>toggleSmartTurbo\<close>.\<close>

definition toggleSmartTurbo :: "player \<Rightarrow> player" where
  "toggleSmartTurbo s =
     (let isTurbo = (playbackRate s = 2 \<and> smartSkipEnabled s)
      in if isTurbo then
           s\<lparr>playbackRate := 1, smartSkipEnabled := False, videoRef := setElementRate 1 (videoRef s)\<rparr>
         else
           s\<lparr>playbackRate := 2, smartSkipEnabled := True, videoRef := setElementRate 2 (videoRef s)\<rparr>)"

text \<open>
  The specification's three modes. The component has no variable for the mode; this is the
  mode as the specification reads it off the two variables the component does have.
\<close>

datatype mode = OFF | SKIP_ONLY | TURBO

definition mode_of :: "player \<Rightarrow> mode" where
  "mode_of s = (if isTurboActive s then TURBO else if smartSkipEnabled s then SKIP_ONLY else OFF)"

text \<open>The rate the element plays at, when mounted.\<close>

definition elementRate :: "player \<Rightarrow> rat option" where
  "elementRate s = map_option el_playbackRate (videoRef s)"

section \<open>Media acquisition (youtubeService and the URL form of App)\<close>

subsection \<open>Strings\<close>

text \<open>
  Strings are byte strings (\<^typ>\<open>string\<close>); the functions below are the string methods of
  the platform that the code calls. \<open>haystack.includes(needle)\<close>:
\<close>

fun str_includes :: "string \<Rightarrow> string \<Rightarrow> bool" where
  "str_includes [] needle \<longleftrightarrow> needle = []"
| "str_includes (c # cs) needle \<longleftrightarrow> prefix needle (c # cs) \<or> str_includes cs needle"

text \<open>\<open>s.split(sep)\<close> for a one-character separator; the result is never empty.\<close>

fun js_split :: "char \<Rightarrow> string \<Rightarrow> string list" where
  "js_split sep [] = [[]]"
| "js_split sep (c # cs) =
     (if c = sep then [] # js_split sep cs
      else (case js_split sep cs of
              [] \<Rightarrow> [[c]]
            | p # ps \<Rightarrow> (c # p) # ps))"

text \<open>\<open>xs.pop()\<close> (the value only) and \<open>xs[0]\<close>: \<open>None\<close> is \<open>undefined\<close>.\<close>

definition pop :: "'a list \<Rightarrow> 'a option" where
  "pop xs = (if xs = [] then None else Some (last xs))"

definition first_elem :: "'a list \<Rightarrow> 'a option" where
  "first_elem xs = (case xs of [] \<Rightarrow> None | x # _ \<Rightarrow> Some x)"

text \<open>A number in a template literal (\<open>`Status ${res.status}`\<close>).\<close>

fun decimal :: "nat \<Rightarrow> string" where
  "decimal n = (if n < 10 then [''0123456789'' ! n]
                else decimal (n div 10) @ [''0123456789'' ! (n mod 10)])"

declare decimal.simps [simp del]

subsection \<open>Errors, requests and responses\<close>

text \<open>
  A JavaScript \<open>Error\<close> object: its message and its optional \<open>cause\<close>. \<open>new Error(msg)\<close>
  sets no cause.
\<close>

datatype js_error = JsError (message: string) (cause: "js_error option")

definition newError :: "string \<Rightarrow> js_error" where
  "newError msg = JsError msg None"

record js_blob =
  blob_type :: string
  blob_data :: "nat list"

record picker_item =
  item_type :: string
  item_url :: string

text \<open>
  The JSON payload of a resolver backend, with the fields the code reads: \<open>status\<close>,
  \<open>text\<close>, \<open>picker\<close> and \<open>url\<close>. \<open>None\<close> is an absent \<open>text\<close> or \<open>picker\<close>; \<open>url\<close> is a
  string, as the declared result type \<open>Promise<string>\<close> of \<open>resolveYoutubeUrl\<close> has it.
\<close>

record resolver_data =
  data_status :: string
  data_text :: "string option"
  data_picker :: "picker_item list option"
  data_url :: string

text \<open>
  A \<open>Response\<close>: the status code, the \<open>content-type\<close> header (\<open>None\<close> when \<open>headers.get\<close>
  gives \<open>null\<close>), and what \<open>json()\<close> and \<open>blob()\<close> settle with. Both can reject; \<open>jsonBody\<close> is
  \<open>Inl\<close> also for a payload that is not an object, whose fields cannot be read.
\<close>

record response =
  status :: nat
  contentTypeHeader :: "string option"
  jsonBody :: "js_error + resolver_data"
  blobBody :: "js_error + js_blob"

text \<open>\<open>res.ok\<close>: the status is in the range 200 to 299.\<close>

definition ok :: "response \<Rightarrow> bool" where
  "ok res \<longleftrightarrow> 200 \<le> status res \<and> status res \<le> 299"

text \<open>The body \<open>JSON.stringify({url: cleanUrl, filenamePattern: 'basic'})\<close> of the POST.\<close>

record resolver_request =
  req_url :: string
  filenamePattern :: string

datatype request = Post string resolver_request | Get string

datatype reply = Rejected js_error | Resolved response

text \<open>The result of \<open>new URL(s)\<close> as far as the code reads it.\<close>

record URL =
  hostname :: string
  pathname :: string
  searchParams :: "(string \<times> string) list"

record js_file =
  file_blob :: js_blob
  file_name :: string
  file_type :: string

text \<open>
  The browser functions the code calls, as parameters of the model: \<open>fetch\<close> (what the
  network answers to a request; within one submission no request is issued twice),
  \<open>String.prototype.trim\<close>, \<open>encodeURIComponent\<close>, \<open>new URL\<close> (\<open>None\<close> when the constructor
  throws) and \<open>URL.createObjectURL\<close>.
\<close>

record platform =
  fetch :: "request \<Rightarrow> reply"
  trim :: "string \<Rightarrow> string"
  encodeURIComponent :: "string \<Rightarrow> string"
  newURL :: "string \<Rightarrow> URL option"
  createObjectURL :: "js_file \<Rightarrow> string"

text \<open>
  What a run does that can be observed from outside, in order: progress messages,
  console output and network calls, each network call tagged with the place of the code
  that issues it.
\<close>

datatype event =
    SetDownloadStatus string
  | ConsoleWarn string
  | ConsoleError string "js_error option"
  | ResolverPost string resolver_request
  | DirectFetch string
  | ProxyFetch string

fun posts :: "event list \<Rightarrow> string list" where
  "posts [] = []"
| "posts (ResolverPost apiBase body # es) = apiBase # posts es"
| "posts (_ # es) = posts es"

fun directs :: "event list \<Rightarrow> string list" where
  "directs [] = []"
| "directs (DirectFetch u # es) = u # directs es"
| "directs (_ # es) = directs es"

fun relays :: "event list \<Rightarrow> string list" where
  "relays [] = []"
| "relays (ProxyFetch u # es) = u # relays es"
| "relays (_ # es) = relays es"

subsection \<open>youtubeService\<close>

definition isYoutubeUrl :: "string \<Rightarrow> bool" where
  "isYoutubeUrl url \<longleftrightarrow> str_includes url ''youtube.com'' \<or> str_includes url ''youtu.be''"

definition instances :: "string list" where
  "instances =
     [''https://co.wuk.sh/api/json'',
      ''https://api.succubus.space/api/json'',
      ''https://cobalt.kwiatekmiki.pl/api/json'',
      ''https://cobalt.qkv.fun/api/json'',
      ''https://api.cobalt.tools/api/json'',
      ''https://cobalt.slpy.one/api/json'',
      ''https://api.server.exelban.com/api/json'',
      ''https://cobalt.xy2401.com/api/json'',
      ''https://cobalt.arms.nu/api/json'']"

text \<open>
  Step 1 of \<open>resolveYoutubeUrl\<close>, "Sanitize URL": the value of \<open>cleanUrl\<close> after the
  \<open>try\<close>/\<open>catch\<close>. \<open>searchParams.get('v')\<close> is the first value stored under \<open>v\<close>.
\<close>

definition sanitizeUrl :: "(string \<Rightarrow> URL option) \<Rightarrow> string \<Rightarrow> string" where
  "sanitizeUrl parse url =
     (case parse url of
        None \<Rightarrow> url
      | Some urlObj \<Rightarrow>
          if hostname urlObj = ''youtu.be'' then
            ''https://www.youtube.com/watch?v='' @ drop 1 (pathname urlObj)
          else if str_includes (hostname urlObj) ''youtube.com'' then
            (case map_of (searchParams urlObj) ''v'' of
               None \<Rightarrow> url
             | Some v \<Rightarrow> if v \<noteq> [] then ''https://www.youtube.com/watch?v='' @ v else url)
          else url)"

text \<open>
  The body of the \<open>try\<close> inside the loop over the instances: \<open>Inr\<close> is the value returned,
  \<open>Inl\<close> the error thrown (and caught by the loop).
\<close>

definition attempt :: "platform \<Rightarrow> string \<Rightarrow> string \<Rightarrow> js_error + string" where
  "attempt P cleanUrl apiBase =
     (case fetch P (Post apiBase \<lparr>req_url = cleanUrl, filenamePattern = ''basic''\<rparr>) of
        Rejected e \<Rightarrow> Inl e
      | Resolved res \<Rightarrow>
          (case contentTypeHeader res of
             None \<Rightarrow> Inl (newError ''Invalid content-type: null'')
           | Some contentType \<Rightarrow>
               if \<not> str_includes contentType ''application/json'' then
                 Inl (newError (''Invalid content-type: '' @ contentType))
               else
                 (case jsonBody res of
                    Inl e \<Rightarrow> Inl e
                  | Inr data \<Rightarrow>
                      if data_status data = ''error'' then
                        Inl (newError (case data_text data of
                                         None \<Rightarrow> ''Resolver returned error''
                                       | Some t \<Rightarrow> if t = [] then ''Resolver returned error'' else t))
                      else if data_status data = ''picker'' then
                        (case data_picker data of
                           None \<Rightarrow> Inl (JsError ''Cannot read properties of undefined (reading 'find')'' None)
                         | Some items \<Rightarrow>
                             (case find (\<lambda>p. item_type p = ''video'') items of
                                Some item \<Rightarrow> Inr (item_url item)
                              | None \<Rightarrow> Inl (newError ''No video stream found in picker'')))
                      else if data_status data = ''stream'' \<or> data_status data = ''redirect'' then
                        Inr (data_url data)
                      else Inl (newError ''Unexpected response format''))))"

text \<open>
  Step 2, the loop over the instances: \<open>Inr\<close> when an instance returned, \<open>Inl\<close> with the
  value of \<open>lastError\<close> when the loop ran to its end.
\<close>

fun tryInstances ::
  "platform \<Rightarrow> string \<Rightarrow> string list \<Rightarrow> js_error option \<Rightarrow> (js_error option + string) \<times> event list"
where
  "tryInstances P cleanUrl [] lastError = (Inl lastError, [])"
| "tryInstances P cleanUrl (apiBase # rest) lastError =
     (let call = ResolverPost apiBase \<lparr>req_url = cleanUrl, filenamePattern = ''basic''\<rparr>
      in case attempt P cleanUrl apiBase of
           Inr u \<Rightarrow> (Inr u, [call])
         | Inl e \<Rightarrow>
             (case tryInstances P cleanUrl rest (Some e) of
                (r, tr) \<Rightarrow> (r, call # tr)))"

definition resolveYoutubeUrl :: "platform \<Rightarrow> string \<Rightarrow> (js_error + string) \<times> event list" where
  "resolveYoutubeUrl P url =
     (let cleanUrl = sanitizeUrl (newURL P) url;
          warn = (if newURL P url = None
                  then [ConsoleWarn ''URL sanitization failed, using original:''] else [])
      in case tryInstances P cleanUrl instances None of
           (Inr u, tr) \<Rightarrow> (Inr u, warn @ tr)
         | (Inl lastError, tr) \<Rightarrow>
             (Inl (newError ''Failed to resolve YouTube URL. The video might be restricted, or servers are busy. Please try again.''),
              warn @ tr @ [ConsoleError ''All YouTube resolvers failed.'' lastError]))"

subsection \<open>The URL form: \<open>handleUrlSubmit\<close>\<close>

definition proxyStrategies :: "(string \<Rightarrow> string) \<Rightarrow> (string \<Rightarrow> string) list" where
  "proxyStrategies enc =
     [\<lambda>u. ''https://corsproxy.io/?'' @ enc u,
      \<lambda>u. ''https://api.allorigins.win/raw?url='' @ enc u,
      \<lambda>u. ''https://thingproxy.freeboard.io/fetch/'' @ u]"

text \<open>
  The inner \<open>try\<close> of the first iteration: the unproxied fetch. Its \<open>catch\<close> is empty, so
  a rejected fetch, a status that is not \<open>ok\<close> and a body that cannot be read all give
  \<open>None\<close>, and the iteration goes on to the proxy.
\<close>

definition directFetch :: "platform \<Rightarrow> string \<Rightarrow> js_blob option" where
  "directFetch P fetchUrl =
     (case fetch P (Get fetchUrl) of
        Rejected e \<Rightarrow> None
      | Resolved res \<Rightarrow>
          if ok res then (case blobBody res of Inl e \<Rightarrow> None | Inr b \<Rightarrow> Some b)
          else None)"

text \<open>The fetch through a proxy: \<open>Inl\<close> is what the outer \<open>catch\<close> stores in \<open>lastError\<close>.\<close>

definition proxyFetch :: "platform \<Rightarrow> string \<Rightarrow> js_error + js_blob" where
  "proxyFetch P proxyUrl =
     (case fetch P (Get proxyUrl) of
        Rejected e \<Rightarrow> Inl e
      | Resolved res \<Rightarrow>
          if \<not> ok res then Inl (newError (''Status '' @ decimal (status res)))
          else blobBody res)"

text \<open>
  The loop over \<open>proxyStrategies\<close>; \<open>i\<close> is the index of the iteration, so that
  \<open>createProxy === proxyStrategies[0]\<close> is \<open>i = 0\<close>. The result is the final
  \<open>(blob, lastError)\<close>.
\<close>

fun downloadLoop ::
  "platform \<Rightarrow> bool \<Rightarrow> string \<Rightarrow> (string \<Rightarrow> string) list \<Rightarrow> nat \<Rightarrow> js_error option
     \<Rightarrow> (js_blob option \<times> js_error option) \<times> event list"
where
  "downloadLoop P isYT fetchUrl [] i lastError = ((None, lastError), [])"
| "downloadLoop P isYT fetchUrl (createProxy # rest) i lastError =
     (let tryDirect = (\<not> isYT \<and> i = 0);
          direct = (if tryDirect then directFetch P fetchUrl else None);
          tr0 = (if tryDirect then [DirectFetch fetchUrl] else [])
      in case direct of
           Some b \<Rightarrow> ((Some b, lastError), tr0)
         | None \<Rightarrow>
             (case proxyFetch P (createProxy fetchUrl) of
                Inr b \<Rightarrow> ((Some b, lastError), tr0 @ [ProxyFetch (createProxy fetchUrl)])
              | Inl err \<Rightarrow>
                  (case downloadLoop P isYT fetchUrl rest (Suc i) (Some err) of
                     (r, tr) \<Rightarrow> (r, tr0 @ ProxyFetch (createProxy fetchUrl) # tr))))"

text \<open>
  \<open>isYT ? 'youtube_video.mp4' : (urlInput.split('/').pop()?.split('?')[0] || 'video.mp4')\<close>
\<close>

definition fileNameFor :: "bool \<Rightarrow> string \<Rightarrow> string" where
  "fileNameFor isYT urlInput =
     (if isYT then ''youtube_video.mp4''
      else (case (case pop (js_split CHR ''/'' urlInput) of
                    None \<Rightarrow> None
                  | Some seg \<Rightarrow> first_elem (js_split CHR ''?'' seg)) of
              None \<Rightarrow> ''video.mp4''
            | Some n \<Rightarrow> if n = [] then ''video.mp4'' else n))"

text \<open>The \<open>try\<close> block of \<open>handleUrlSubmit\<close>: the \<open>File\<close> it builds, or the error it throws.\<close>

definition handleUrlSubmit_try :: "platform \<Rightarrow> string \<Rightarrow> (js_error + js_file) \<times> event list" where
  "handleUrlSubmit_try P urlInput =
     (let isYT = isYoutubeUrl urlInput
      in case (if isYT then
                 (case resolveYoutubeUrl P urlInput of
                    (r, tr) \<Rightarrow> (r, SetDownloadStatus ''Resolving YouTube stream...'' # tr))
               else (Inr urlInput, [])) of
           (Inl e, tr1) \<Rightarrow> (Inl e, tr1)
         | (Inr fetchUrl, tr1) \<Rightarrow>
             (let st = SetDownloadStatus (if isYT then ''Downloading video data (via Proxy)...''
                                          else ''Downloading video...'')
              in case downloadLoop P isYT fetchUrl (proxyStrategies (encodeURIComponent P)) 0 None of
                   ((None, lastError), tr2) \<Rightarrow>
                     (Inl (newError (''Failed to download video. '' @
                                      (case lastError of None \<Rightarrow> [] | Some e \<Rightarrow> message e))),
                      tr1 @ st # tr2)
                 | ((Some b, lastError), tr2) \<Rightarrow>
                     (Inr \<lparr>file_blob = b,
                          file_name = fileNameFor isYT urlInput,
                          file_type = (if blob_type b = [] then ''video/mp4'' else blob_type b)\<rparr>,
                      tr1 @ st # tr2)))"

datatype AnalysisStatus = IDLE | ANALYZING | COMPLETED | ERROR

record AnalysisResult =
  segments :: "SkipSegment list"
  summary :: string

record VideoFile =
  file' :: js_file
  previewUrl :: string

record app =
  videoFile :: "VideoFile option"
  analysisStatus :: AnalysisStatus
  analysisResult :: "AnalysisResult option"
  error :: "string option"
  urlInput :: string
  isDownloading :: bool
  downloadStatus :: string

text \<open>\<open>handleUrlSubmit\<close>: the state after the handler has run, and what it did.\<close>

definition handleUrlSubmit :: "platform \<Rightarrow> app \<Rightarrow> app \<times> event list" where
  "handleUrlSubmit P a =
     (if trim P (urlInput a) = [] then (a, [])
      else case handleUrlSubmit_try P (urlInput a) of
             (Inr f, tr) \<Rightarrow>
               (a\<lparr>error := None,
                  videoFile := Some \<lparr>file' = f, previewUrl = createObjectURL P f\<rparr>,
                  analysisStatus := IDLE,
                  analysisResult := None,
                  isDownloading := False,
                  downloadStatus := []\<rparr>,
                SetDownloadStatus ''Initializing...'' # tr @ [SetDownloadStatus []])
           | (Inl e, tr) \<Rightarrow>
               (a\<lparr>error := Some (if message e = []
                                   then ''Could not download video. Please check the URL.''
                                   else message e),
                  isDownloading := False,
                  downloadStatus := []\<rparr>,
                SetDownloadStatus ''Initializing...'' # tr
                  @ [ConsoleError [] (Some e), SetDownloadStatus []]))"

section \<open>Notions used in the statements\<close>

text \<open>The event of the POST that the loop sends to one instance.\<close>

definition resolverCall :: "string \<Rightarrow> string \<Rightarrow> event" where
  "resolverCall cleanUrl apiBase = ResolverPost apiBase \<lparr>req_url = cleanUrl, filenamePattern = ''basic''\<rparr>"

text \<open>Every instance of the list fails on the sanitized form of \<open>url\<close>.\<close>

definition exhausted :: "platform \<Rightarrow> string \<Rightarrow> bool" where
  "exhausted P url \<longleftrightarrow>
     (\<forall>apiBase \<in> set instances. isl (attempt P (sanitizeUrl (newURL P) url) apiBase))"





text \<open>
  A video identifier made of letters, digits, \<open>-\<close> and \<open>_\<close> only, and a URL constructor that
  reads such an identifier back from the canonical watch link, as the URL Standard
  prescribes.
\<close>

definition plainId :: "string \<Rightarrow> bool" where
  "plainId v \<longleftrightarrow>
     (\<forall>c \<in> set v. c \<in> set ''ABCDEFGHIJKLMNOPQRSTUVWXYZabcdefghijklmnopqrstuvwxyz0123456789-_'')"

definition readsBack :: "(string \<Rightarrow> URL option) \<Rightarrow> bool" where
  "readsBack parse \<longleftrightarrow>
     (\<forall>v. plainId v \<longrightarrow>
        (\<exists>u. parse (''https://www.youtube.com/watch?v='' @ v) = Some u
           \<and> hostname u = ''www.youtube.com''
           \<and> map_of (searchParams u) ''v'' = Some v))"


section \<open>Example inputs\<close>

subsection \<open>Players and segment lists\<close>

text \<open>A mounted player at position \<open>t\<close> with smart skip enabled.\<close>

definition demo_player :: "rat \<Rightarrow> player" where
  "demo_player t =
     \<lparr>videoRef = Some \<lparr>el_currentTime = t, el_playbackRate = 1, seekLog = []\<rparr>,
      currentTime = 0, playbackRate = 1, smartSkipEnabled = True,
      isSkipping = False, skipReason = None, resetTimers = 0\<rparr>"

text \<open>A player at 1.5x with smart skip disabled.\<close>

definition demo_slow :: player where
  "demo_slow = (demo_player 0)\<lparr>playbackRate := 3/2, smartSkipEnabled := False\<rparr>"

definition seg_A :: SkipSegment where "seg_A = \<lparr>start = 0, end' = 10, reason = ''A''\<rparr>"

definition seg_B :: SkipSegment where "seg_B = \<lparr>start = 5, end' = 15, reason = ''B''\<rparr>"

definition seg_C :: SkipSegment where "seg_C = \<lparr>start = 10, end' = 20, reason = ''C''\<rparr>"

text \<open>A segment whose end lies before its start.\<close>

definition seg_X :: SkipSegment where "seg_X = \<lparr>start = 8, end' = 3, reason = ''X''\<rparr>"

subsection \<open>A URL parser, \<open>trim\<close> and an encoder\<close>

text \<open>
  For the examples the browser functions are made concrete. \<open>parseURL\<close> follows the
  URL Standard on the references used below: absolute \<open>http\<close> and \<open>https\<close> URLs in lower
  case, without credentials, port, dot segments, percent escapes or \<open>+\<close>. There the host
  ends at the first \<open>/\<close>, \<open>?\<close> or \<open>#\<close>, the path at the first \<open>?\<close> or \<open>#\<close>, the query at the
  first \<open>#\<close>, and the query is a list of \<open>name=value\<close> pairs separated by \<open>&\<close>. A string
  without such a scheme is rejected, as a relative reference without a base is.
\<close>

definition afterScheme :: "string \<Rightarrow> string option" where
  "afterScheme s =
     (if prefix ''https://'' s then Some (drop 8 s)
      else if prefix ''http://'' s then Some (drop 7 s)
      else None)"

definition parseQuery :: "string \<Rightarrow> (string \<times> string) list" where
  "parseQuery q =
     map (\<lambda>p. (takeWhile (\<lambda>c. c \<noteq> CHR ''='') p, drop 1 (dropWhile (\<lambda>c. c \<noteq> CHR ''='') p)))
         (filter (\<lambda>p. p \<noteq> []) (js_split CHR ''&'' q))"

definition parseURL :: "string \<Rightarrow> URL option" where
  "parseURL s =
     (case afterScheme s of
        None \<Rightarrow> None
      | Some rest \<Rightarrow>
          let host = takeWhile (\<lambda>c. c \<notin> set ''/?#'') rest;
              r1 = dropWhile (\<lambda>c. c \<notin> set ''/?#'') rest;
              path = takeWhile (\<lambda>c. c \<notin> set ''?#'') r1;
              r2 = dropWhile (\<lambda>c. c \<notin> set ''?#'') r1;
              query = (case r2 of
                         [] \<Rightarrow> []
                       | c # q \<Rightarrow> if c = CHR ''?'' then takeWhile (\<lambda>c. c \<noteq> CHR ''#'') q else [])
          in if host = [] then None
             else Some \<lparr>hostname = host,
                        pathname = (if path = [] then ''/'' else path),
                        searchParams = parseQuery query\<rparr>)"

text \<open>\<open>s.trim()\<close> on a string whose white space is ASCII.\<close>

definition isSpace :: "char \<Rightarrow> bool" where
  "isSpace c \<longleftrightarrow> c \<in> {CHR '' '', CHR 0x09, CHR 0x0A, CHR 0x0B, CHR 0x0C, CHR 0x0D}"

definition js_trim :: "string \<Rightarrow> string" where
  "js_trim s = rev (dropWhile isSpace (rev (dropWhile isSpace s)))"

text \<open>
  \<open>encodeURIComponent\<close> on a byte string (UTF-8): every byte that is not a letter, a digit
  or one of \<open>- _ . ! ~ * ' ( )\<close> becomes \<open>%XX\<close>.
\<close>

definition unreserved :: "char \<Rightarrow> bool" where
  "unreserved c \<longleftrightarrow>
     c \<in> set ''ABCDEFGHIJKLMNOPQRSTUVWXYZabcdefghijklmnopqrstuvwxyz0123456789-_.!~*()''
     \<or> c = CHR 0x27"

definition percentEncode :: "char \<Rightarrow> string" where
  "percentEncode c =
     (if unreserved c then [c]
      else [CHR ''%'', ''0123456789ABCDEF'' ! (of_char c div 16),
                       ''0123456789ABCDEF'' ! (of_char c mod 16)])"

definition encodeBytes :: "string \<Rightarrow> string" where
  "encodeBytes u = concat (map percentEncode u)"

subsection \<open>Responses and networks\<close>

text \<open>The rejection of a \<open>fetch\<close> that does not reach the server.\<close>

definition fetch_failure :: js_error where
  "fetch_failure = JsError ''Failed to fetch'' None"

text \<open>An HTML error page served with status 200.\<close>

definition html_page :: response where
  "html_page =
     \<lparr>status = 200, contentTypeHeader = Some ''text/html'',
      jsonBody = Inl (JsError ''Unexpected token < in JSON at position 0'' None),
      blobBody = Inr \<lparr>blob_type = ''text/html'', blob_data = []\<rparr>\<rparr>"

text \<open>The JSON answers \<open>{status: 'error', text: 'rate limited'}\<close> and \<open>{status: 'stream', url: u}\<close>.\<close>

definition rate_limited :: response where
  "rate_limited =
     \<lparr>status = 200, contentTypeHeader = Some ''application/json; charset=utf-8'',
      jsonBody = Inr \<lparr>data_status = ''error'', data_text = Some ''rate limited'',
                      data_picker = None, data_url = []\<rparr>,
      blobBody = Inr \<lparr>blob_type = ''application/json'', blob_data = []\<rparr>\<rparr>"

definition stream_reply :: "string \<Rightarrow> response" where
  "stream_reply u =
     \<lparr>status = 200, contentTypeHeader = Some ''application/json'',
      jsonBody = Inr \<lparr>data_status = ''stream'', data_text = None,
                      data_picker = None, data_url = u\<rparr>,
      blobBody = Inr \<lparr>blob_type = ''application/json'', blob_data = []\<rparr>\<rparr>"

text \<open>A media file served with status 200; \<open>t\<close> is the type its blob declares.\<close>

definition video_response :: "string \<Rightarrow> response" where
  "video_response t =
     \<lparr>status = 200, contentTypeHeader = Some t,
      jsonBody = Inl (JsError ''Unexpected token in JSON at position 0'' None),
      blobBody = Inr \<lparr>blob_type = t, blob_data = [26, 69, 223, 163]\<rparr>\<rparr>"

text \<open>A platform with the functions above, over a given network.\<close>

definition browser :: "(request \<Rightarrow> reply) \<Rightarrow> platform" where
  "browser net =
     \<lparr>fetch = net, trim = js_trim, encodeURIComponent = encodeBytes, newURL = parseURL,
      createObjectURL = (\<lambda>f. ''blob:'' @ file_name f)\<rparr>"

text \<open>
  No resolver succeeds: the last instance of the list answers with a JSON error, the
  others with an HTML page.
\<close>

definition all_failing :: platform where
  "all_failing = browser (\<lambda>req.
     case req of
       Post apiBase body \<Rightarrow>
         if apiBase = ''https://cobalt.arms.nu/api/json'' then Resolved rate_limited
         else Resolved html_page
     | Get u \<Rightarrow> Rejected fetch_failure)"

text \<open>
  The first instance is unreachable, the second answers with an HTML page, and the third
  and all later ones resolve the link; every download succeeds.
\<close>

definition third_succeeds :: platform where
  "third_succeeds = browser (\<lambda>req.
     case req of
       Post apiBase body \<Rightarrow>
         if apiBase = ''https://co.wuk.sh/api/json'' then Rejected fetch_failure
         else if apiBase = ''https://api.succubus.space/api/json'' then Resolved html_page
         else Resolved (stream_reply ''https://cdn/x.mp4'')
     | Get u \<Rightarrow> Resolved (video_response ''video/webm''))"

text \<open>The URL form with \<open>u\<close> typed in, before it is submitted.\<close>

definition form :: "string \<Rightarrow> app" where
  "form u =
     \<lparr>videoFile = None, analysisStatus = IDLE, analysisResult = None, error = None,
      urlInput = u, isDownloading = False, downloadStatus = []\<rparr>"

text \<open>A direct link that can be fetched without a proxy; its blob declares no type.\<close>

definition direct_ok :: platform where
  "direct_ok = browser (\<lambda>req.
     case req of
       Post apiBase body \<Rightarrow> Rejected fetch_failure
     | Get u \<Rightarrow>
         if u = ''https://example.com/media/clip.mp4?token=1'' then Resolved (video_response [])
         else Rejected fetch_failure)"

text \<open>
  The same link answers 200, but reading the body of that response is rejected; every
  proxy delivers the file.
\<close>

definition body_fails :: platform where
  "body_fails = browser (\<lambda>req.
     case req of
       Post apiBase body \<Rightarrow> Rejected fetch_failure
     | Get u \<Rightarrow>
         if u = ''https://example.com/media/clip.mp4?token=1''
         then Resolved ((video_response ''video/mp4'')\<lparr>blobBody := Inl (JsError ''network error'' None)\<rparr>)
         else Resolved (video_response ''video/mp4''))"

section \<open>Properties of the playback engine\<close>

lemma find_first_index:
  assumes "i < length xs" and "P (xs ! i)" and "\<forall>j<i. \<not> P (xs ! j)"
  shows "find P xs = Some (xs ! i)"
  using assms by (auto simp: find_Some_iff)

lemma find_in_segment_wellformed:
  "find (in_segment t) segs = Some seg \<Longrightarrow> start seg < end' seg"
  by (auto simp: find_Some_iff in_segment_def)

lemma malformed_not_in_segment: "end' seg < start seg \<Longrightarrow> \<not> in_segment t seg"
  by (auto simp: in_segment_def)

lemma find_filter_wellformed:
  "find (in_segment t) (filter (\<lambda>seg. \<not> end' seg < start seg) segs) = find (in_segment t) segs"
  by (induction segs) (auto simp: malformed_not_in_segment)

lemma find_None_empty_filter:
  "filter (\<lambda>seg. \<not> end' seg < start seg) segs = [] \<Longrightarrow> find (in_segment t) segs = None"
  using find_filter_wellformed [of t segs] by simp

subsection \<open>Selection of the segment to skip\<close>

text \<open>
  Claim C1. On a time-update notification with smart skip enabled, the handler selects the
  first segment in list order whose half-open interval \<open>[start, end)\<close> contains the current
  position: if the segment at index \<open>i\<close> contains the position and no segment at a smaller
  index does, the play head is moved to the end of that segment and its reason is shown,
  whatever the start times of the segments are. For the segments \<open>{0,10,"A"}\<close>,
  \<open>{5,15,"B"}\<close> and position 7 this selects \<open>"A"\<close> and jumps to 10.
\<close>

theorem skip_selects_first_in_list_order:
  assumes "videoRef s = Some v" and "smartSkipEnabled s"
    and "i < length segs"
    and "in_segment (el_currentTime v) (segs ! i)"
    and "\<forall>j<i. \<not> in_segment (el_currentTime v) (segs ! j)"
  shows "position (handleTimeUpdate segs s) = Some (end' (segs ! i))
       \<and> skipReason (handleTimeUpdate segs s) = Some (reason (segs ! i))
       \<and> isSkipping (handleTimeUpdate segs s)"
proof -
  from assms(3-5) have f: "find (in_segment (el_currentTime v)) segs = Some (segs ! i)"
    by (rule find_first_index)
  from assms(3) have "length segs > 0" by auto
  with assms(1,2) f show ?thesis
    by (simp add: handleTimeUpdate_def position_def Let_def)
qed

theorem skip_selects_first_in_list_order_witness:
  "position (handleTimeUpdate [seg_A, seg_B] (demo_player 7)) = Some 10
 \<and> skipReason (handleTimeUpdate [seg_A, seg_B] (demo_player 7)) = Some ''A''
 \<and> position (handleTimeUpdate [seg_B, seg_A] (demo_player 7)) = Some 15
 \<and> skipReason (handleTimeUpdate [seg_B, seg_A] (demo_player 7)) = Some ''B''"
  using skip_selects_first_in_list_order
          [of "demo_player 7" "\<lparr>el_currentTime = 7, el_playbackRate = 1, seekLog = []\<rparr>" 0 "[seg_A, seg_B]"]
        skip_selects_first_in_list_order
          [of "demo_player 7" "\<lparr>el_currentTime = 7, el_playbackRate = 1, seekLog = []\<rparr>" 0 "[seg_B, seg_A]"]
  by (simp add: demo_player_def seg_A_def seg_B_def in_segment_def)

subsection \<open>One jump per notification\<close>

text \<open>
  Claim C2. For every segment list and every state, one time-update notification performs
  at most one jump of the play head. When a segment is selected, the jump goes to the end
  of that segment and nothing more is done, also when that end lies inside another
  segment of the list. A segment with \<open>end < start\<close> contains no position, so it is never
  selected: the handler behaves as if such segments were not in the list, and it has no
  failing branch.
\<close>

theorem one_jump_per_notification:
  "length (seeks (handleTimeUpdate segs s)) \<le> length (seeks s) + 1
 \<and> (\<forall>v seg. videoRef s = Some v \<and> smartSkipEnabled s
        \<and> find (in_segment (el_currentTime v)) segs = Some seg
      \<longrightarrow> position (handleTimeUpdate segs s) = Some (end' seg)
        \<and> seeks (handleTimeUpdate segs s) = seeks s @ [end' seg])
 \<and> (\<forall>seg t. end' seg < start seg \<longrightarrow> \<not> in_segment t seg)
 \<and> handleTimeUpdate (filter (\<lambda>seg. \<not> end' seg < start seg) segs) s = handleTimeUpdate segs s"
proof (intro conjI allI impI)
  show "length (seeks (handleTimeUpdate segs s)) \<le> length (seeks s) + 1"
    by (simp add: handleTimeUpdate_def seeks_def Let_def split: option.splits)
next
  fix v and seg :: SkipSegment
  assume a: "videoRef s = Some v \<and> smartSkipEnabled s
        \<and> find (in_segment (el_currentTime v)) segs = Some seg"
  then have "segs \<noteq> []" by auto
  with a show "position (handleTimeUpdate segs s) = Some (end' seg)"
    by (simp add: handleTimeUpdate_def position_def Let_def)
  from a \<open>segs \<noteq> []\<close> show "seeks (handleTimeUpdate segs s) = seeks s @ [end' seg]"
    by (simp add: handleTimeUpdate_def seeks_def Let_def)
next
  fix seg :: SkipSegment and t assume "end' seg < start seg"
  then show "\<not> in_segment t seg" by (rule malformed_not_in_segment)
next
  show "handleTimeUpdate (filter (\<lambda>seg. \<not> end' seg < start seg) segs) s = handleTimeUpdate segs s"
  proof (cases "filter (\<lambda>seg. \<not> end' seg < start seg) segs = []")
    case True
    then have "find (in_segment t) segs = None" for t
      by (rule find_None_empty_filter)
    with True show ?thesis
      by (simp add: handleTimeUpdate_def Let_def split: option.splits)
  next
    case False
    then have "segs \<noteq> []" by auto
    with False show ?thesis
      by (simp add: handleTimeUpdate_def Let_def find_filter_wellformed split: option.splits)
  qed
qed

theorem one_jump_per_notification_witness:
  "in_segment 10 seg_C
 \<and> position (handleTimeUpdate [seg_X, seg_A, seg_C] (demo_player 5)) = Some 10
 \<and> seeks (handleTimeUpdate [seg_X, seg_A, seg_C] (demo_player 5)) = [10]
 \<and> \<not> in_segment 5 seg_X
 \<and> handleTimeUpdate [seg_X] (demo_player 5) = handleTimeUpdate [] (demo_player 5)"
  using one_jump_per_notification [of "[seg_X, seg_A, seg_C]" "demo_player 5"]
        one_jump_per_notification [of "[seg_X]" "demo_player 5"]
  by (simp add: demo_player_def seg_A_def seg_C_def seg_X_def in_segment_def seeks_def)

subsection \<open>The turbo toggle\<close>

text \<open>
  Claim C4. \<open>toggleSmartTurbo\<close> is a toggle on the mode. From every state that is not
  TURBO it gives TURBO and sets the playback rate, of the component and of the element, to
  2. From TURBO it gives OFF and sets the rate to the base rate, the standard 1x that the
  component starts with. The rate that was in force before TURBO was entered is not kept
  anywhere, so toggling twice from a state that is not TURBO ends in OFF at rate 1 also
  when the rate before was not 1.
\<close>

theorem turbo_toggle:
  "(mode_of s \<noteq> TURBO \<longrightarrow>
      mode_of (toggleSmartTurbo s) = TURBO
    \<and> playbackRate (toggleSmartTurbo s) = 2
    \<and> elementRate (toggleSmartTurbo s) = map_option (\<lambda>_. 2) (videoRef s))
 \<and> (mode_of s = TURBO \<longrightarrow>
      mode_of (toggleSmartTurbo s) = OFF
    \<and> playbackRate (toggleSmartTurbo s) = 1
    \<and> elementRate (toggleSmartTurbo s) = map_option (\<lambda>_. 1) (videoRef s))
 \<and> (mode_of s \<noteq> TURBO \<longrightarrow>
      mode_of (toggleSmartTurbo (toggleSmartTurbo s)) = OFF
    \<and> playbackRate (toggleSmartTurbo (toggleSmartTurbo s)) = 1
    \<and> elementRate (toggleSmartTurbo (toggleSmartTurbo s)) = map_option (\<lambda>_. 1) (videoRef s))"
  by (auto simp: mode_of_def isTurboActive_def toggleSmartTurbo_def elementRate_def
                 setElementRate_def option.map_comp comp_def split: if_splits)

theorem turbo_toggle_witness:
  "playbackRate demo_slow = 3/2
 \<and> mode_of demo_slow \<noteq> TURBO
 \<and> mode_of (toggleSmartTurbo demo_slow) = TURBO
 \<and> playbackRate (toggleSmartTurbo demo_slow) = 2
 \<and> mode_of (toggleSmartTurbo (toggleSmartTurbo demo_slow)) = OFF
 \<and> playbackRate (toggleSmartTurbo (toggleSmartTurbo demo_slow)) = 1"
proof -
  have r: "playbackRate demo_slow = 3/2"
    by (simp add: demo_slow_def demo_player_def)
  have h: "mode_of demo_slow \<noteq> TURBO"
    by (simp add: demo_slow_def demo_player_def mode_of_def isTurboActive_def)
  from r h turbo_toggle [of demo_slow] show ?thesis by blast
qed

text \<open>
  The earlier revision of the button, \<open>activateSmartTurbo\<close>, has the entering half only:
  it gives TURBO at rate 2 from every state, and pressing it again changes nothing.
\<close>

lemma activateSmartTurbo_enters:
  "mode_of (activateSmartTurbo s) = TURBO \<and> playbackRate (activateSmartTurbo s) = 2
 \<and> activateSmartTurbo (activateSmartTurbo s) = activateSmartTurbo s"
  by (cases "videoRef s")
     (auto simp: mode_of_def isTurboActive_def activateSmartTurbo_def setElementRate_def)

subsection \<open>The mode is derived\<close>

text \<open>
  Claim C10. The component stores no mode: TURBO is the condition that the playback rate
  is 2 and smart skip is enabled. Enabling smart skip and then choosing 2x with the plain
  speed control gives the very state that the turbo toggle gives, and the next turbo
  toggle from it switches everything off (rate 1, smart skip disabled, mode OFF) instead
  of entering TURBO.
\<close>

theorem turbo_is_derived:
  "(mode_of s = TURBO \<longleftrightarrow> playbackRate s = 2 \<and> smartSkipEnabled s)
 \<and> (\<not> smartSkipEnabled s \<longrightarrow>
      changeSpeed 2 (toggleSmartSkip s) = toggleSmartTurbo s
    \<and> mode_of (changeSpeed 2 (toggleSmartSkip s)) = TURBO
    \<and> playbackRate (toggleSmartTurbo (changeSpeed 2 (toggleSmartSkip s))) = 1
    \<and> \<not> smartSkipEnabled (toggleSmartTurbo (changeSpeed 2 (toggleSmartSkip s)))
    \<and> mode_of (toggleSmartTurbo (changeSpeed 2 (toggleSmartSkip s))) = OFF)"
  by (auto simp: mode_of_def isTurboActive_def toggleSmartTurbo_def changeSpeed_def
                 toggleSmartSkip_def)

theorem turbo_is_derived_witness:
  "\<not> smartSkipEnabled demo_slow
 \<and> mode_of (changeSpeed 2 (toggleSmartSkip demo_slow)) = TURBO
 \<and> playbackRate (toggleSmartTurbo (changeSpeed 2 (toggleSmartSkip demo_slow))) = 1
 \<and> mode_of (toggleSmartTurbo (changeSpeed 2 (toggleSmartSkip demo_slow))) = OFF"
proof -
  have h: "\<not> smartSkipEnabled demo_slow"
    by (simp add: demo_slow_def demo_player_def)
  from h turbo_is_derived [of demo_slow] show ?thesis by blast
qed

section \<open>Properties of the media acquisition\<close>

subsection \<open>Strings and traces\<close>

lemma str_includes_iff: "str_includes s sub \<longleftrightarrow> (\<exists>pre post. s = pre @ sub @ post)"
proof (induction s)
  case Nil
  then show ?case by auto
next
  case (Cons c cs)
  show ?case
  proof
    assume "str_includes (c # cs) sub"
    then consider "prefix sub (c # cs)" | "str_includes cs sub" by auto
    then show "\<exists>pre post. c # cs = pre @ sub @ post"
    proof cases
      case 1
      then obtain post where "c # cs = sub @ post" by (auto simp: prefix_def)
      then have "c # cs = [] @ sub @ post" by simp
      then show ?thesis by blast
    next
      case 2
      with Cons obtain pre post where "cs = pre @ sub @ post" by auto
      then have "c # cs = (c # pre) @ sub @ post" by simp
      then show ?thesis by blast
    qed
  next
    assume "\<exists>pre post. c # cs = pre @ sub @ post"
    then obtain pre post where e: "c # cs = pre @ sub @ post" by auto
    show "str_includes (c # cs) sub"
    proof (cases pre)
      case Nil
      with e have "prefix sub (c # cs)" by (auto simp: prefix_def)
      then show ?thesis by simp
    next
      case (Cons p pre')
      with e have "cs = pre' @ sub @ post" by simp
      with Cons.IH have "str_includes cs sub" by blast
      then show ?thesis by simp
    qed
  qed
qed


lemma js_split_no_sep: "sep \<notin> set s \<Longrightarrow> js_split sep s = [s]"
  by (induction s) auto





lemma posts_append: "posts (xs @ ys) = posts xs @ posts ys"
  by (induction xs rule: posts.induct) auto

lemma directs_append: "directs (xs @ ys) = directs xs @ directs ys"
  by (induction xs rule: directs.induct) auto

lemma relays_append: "relays (xs @ ys) = relays xs @ relays ys"
  by (induction xs rule: relays.induct) auto

lemma posts_resolverCalls: "posts (map (resolverCall c) xs) = xs"
  by (induction xs) (auto simp: resolverCall_def)

lemma directs_resolverCalls: "directs (map (resolverCall c) xs) = []"
  by (induction xs) (auto simp: resolverCall_def)

lemma relays_resolverCalls: "relays (map (resolverCall c) xs) = []"
  by (induction xs) (auto simp: resolverCall_def)

lemma tryInstances_directs: "directs (snd (tryInstances P c xs le)) = []"
  by (induction xs arbitrary: le) (auto simp: Let_def split_beta split: sum.splits)

lemma tryInstances_relays: "relays (snd (tryInstances P c xs le)) = []"
  by (induction xs arbitrary: le) (auto simp: Let_def split_beta split: sum.splits)

lemma tryInstances_first_post: "take 1 (posts (snd (tryInstances P c (b # xs) le))) = [b]"
  by (auto simp: Let_def split_beta split: sum.splits)

subsection \<open>The loop over the resolver instances\<close>

lemma tryInstances_all_fail:
  assumes "\<forall>b \<in> set xs. isl (attempt P c b)"
  shows "tryInstances P c xs le =
           (Inl (if xs = [] then le else Some (projl (attempt P c (last xs)))),
            map (resolverCall c) xs)"
  using assms
proof (induction xs arbitrary: le)
  case Nil
  then show ?case by simp
next
  case (Cons b xs)
  then obtain e where e: "attempt P c b = Inl e" by (cases "attempt P c b") auto
  from Cons have "tryInstances P c xs (Some e) =
           (Inl (if xs = [] then Some e else Some (projl (attempt P c (last xs)))),
            map (resolverCall c) xs)" by simp
  with e show ?case by (simp add: resolverCall_def)
qed

lemma tryInstances_first_success:
  assumes "\<forall>b \<in> set fs. isl (attempt P c b)" and "attempt P c s = Inr u"
  shows "tryInstances P c (fs @ s # rest) le = (Inr u, map (resolverCall c) (fs @ [s]))"
  using assms
proof (induction fs arbitrary: le)
  case Nil
  then show ?case by (simp add: resolverCall_def)
next
  case (Cons b fs)
  then obtain e where e: "attempt P c b = Inl e" by (cases "attempt P c b") auto
  from Cons have "tryInstances P c (fs @ s # rest) (Some e) = (Inr u, map (resolverCall c) (fs @ [s]))"
    by simp
  with e show ?case by (simp add: resolverCall_def)
qed

lemma instances_nonempty: "instances \<noteq> []"
  by (simp add: instances_def)

lemma last_instances: "last instances = ''https://cobalt.arms.nu/api/json''"
  by (simp add: instances_def)

lemma resolve_directs: "directs (snd (resolveYoutubeUrl P u)) = []"
  by (auto simp: resolveYoutubeUrl_def Let_def directs_append tryInstances_directs
           split: prod.splits sum.splits dest: arg_cong [where f = "\<lambda>r. directs (snd r)"])

lemma resolve_first_post: "take 1 (posts (snd (resolveYoutubeUrl P u))) = [''https://co.wuk.sh/api/json'']"
proof -
  obtain b xs where i: "instances = b # xs" "b = ''https://co.wuk.sh/api/json''"
    by (simp add: instances_def)
  have "take 1 (posts (snd (tryInstances P c instances None))) = [''https://co.wuk.sh/api/json'']" for c
    unfolding i(1) using tryInstances_first_post [of P c b xs None] i(2) by simp
  then show ?thesis
    by (auto simp: resolveYoutubeUrl_def Let_def posts_append split: prod.splits sum.splits
        dest!: arg_cong [where f = "\<lambda>r. take 1 (posts (snd r))"])
qed

subsection \<open>The download loop\<close>

lemma downloadLoop_posts: "posts (snd (downloadLoop P isYT u cs i le)) = []"
  by (induction cs arbitrary: i le)
     (auto simp: Let_def split_beta posts_append split: sum.splits option.splits)

lemma downloadLoop_indirect_directs: "directs (snd (downloadLoop P True u cs i le)) = []"
  by (induction cs arbitrary: i le)
     (auto simp: Let_def split_beta split: sum.splits option.splits)

lemma downloadLoop_first_direct:
  "take 1 (directs (snd (downloadLoop P False u (c # cs) 0 le))) = [u]"
  by (auto simp: Let_def split_beta split: sum.splits option.splits)

lemma downloadLoop_direct_ok:
  "directFetch P u = Some b \<Longrightarrow> downloadLoop P False u (c # cs) 0 le = ((Some b, le), [DirectFetch u])"
  by (simp add: Let_def)

lemma downloadLoop_later_directs:
  "directs (snd (downloadLoop P isYT u cs (Suc i) le)) = []"
  by (induction cs arbitrary: i le)
     (auto simp: Let_def split_beta split: sum.splits option.splits)

lemma downloadLoop_direct_failed:
  assumes "directFetch P u = None"
  shows "\<exists>rest. snd (downloadLoop P False u (c # cs) 0 le) = DirectFetch u # ProxyFetch (c u) # rest
           \<and> directs rest = []"
proof (cases "proxyFetch P (c u)")
  case (Inr b)
  with assms show ?thesis by (simp add: Let_def)
next
  case (Inl err)
  obtain r tr where l: "downloadLoop P False u cs (Suc 0) (Some err) = (r, tr)"
    by (cases "downloadLoop P False u cs (Suc 0) (Some err)")
  from downloadLoop_later_directs [of P False u cs 0 "Some err"] l have "directs tr = []" by simp
  with assms Inl l show ?thesis by (simp add: Let_def)
qed

subsection \<open>The example networks\<close>

lemma sanitize_short_link:
  "sanitizeUrl parseURL ''https://youtu.be/abc123'' = ''https://www.youtube.com/watch?v=abc123''"
  by (simp add: sanitizeUrl_def parseURL_def afterScheme_def parseQuery_def Let_def)

lemma attempt_all_failing:
  "attempt all_failing c apiBase =
     Inl (newError (if apiBase = ''https://cobalt.arms.nu/api/json'' then ''rate limited''
                    else ''Invalid content-type: text/html''))"
  by (simp add: attempt_def all_failing_def browser_def rate_limited_def html_page_def)

lemma exhausted_all_failing: "exhausted all_failing url"
  by (simp add: exhausted_def attempt_all_failing)

lemma attempt_third_succeeds:
  "attempt third_succeeds c apiBase =
     (if apiBase = ''https://co.wuk.sh/api/json'' then Inl fetch_failure
      else if apiBase = ''https://api.succubus.space/api/json''
      then Inl (newError ''Invalid content-type: text/html'')
      else Inr ''https://cdn/x.mp4'')"
  by (simp add: attempt_def third_succeeds_def browser_def stream_reply_def html_page_def)

lemma takeWhile_all: "\<forall>x \<in> set xs. P x \<Longrightarrow> takeWhile P xs = xs"
  by (induction xs) auto

lemma parseQuery_v:
  assumes "CHR ''&'' \<notin> set v"
  shows "parseQuery (''v='' @ v) = [(''v'', v)]"
proof -
  from assms have "CHR ''&'' \<notin> set (''v='' @ v)" by simp
  then have "js_split CHR ''&'' (''v='' @ v) = [''v='' @ v]" by (rule js_split_no_sep)
  then show ?thesis by (simp add: parseQuery_def)
qed


lemma plainId_no_hash: "plainId v \<Longrightarrow> CHR ''#'' \<notin> set v"
  unfolding plainId_def by (rule notI, drule (1) bspec, simp)

lemma plainId_no_amp: "plainId v \<Longrightarrow> CHR ''&'' \<notin> set v"
  unfolding plainId_def by (rule notI, drule (1) bspec, simp)

lemma afterScheme_canonical:
  "afterScheme (''https://www.youtube.com/watch?v='' @ v) = Some (''www.youtube.com/watch?v='' @ v)"
  by (simp add: afterScheme_def)

lemma parseURL_canonical:
  assumes "plainId v"
  shows "parseURL (''https://www.youtube.com/watch?v='' @ v) =
           Some \<lparr>hostname = ''www.youtube.com'', pathname = ''/watch'', searchParams = [(''v'', v)]\<rparr>"
proof -
  from assms have h: "CHR ''#'' \<notin> set v" by (rule plainId_no_hash)
  from assms have a: "CHR ''&'' \<notin> set v" by (rule plainId_no_amp)
  from h have t: "takeWhile (\<lambda>c. c \<noteq> CHR ''#'') v = v" by (intro takeWhile_all) auto
  have q: "parseQuery (CHR ''v'' # CHR ''='' # v) = [(''v'', v)]"
    using parseQuery_v [OF a] by simp
  show ?thesis
    unfolding parseURL_def afterScheme_canonical
    by (simp add: Let_def t q)
qed

lemma readsBack_parseURL: "readsBack parseURL"
  unfolding readsBack_def
proof (intro allI impI)
  fix v assume "plainId v"
  then have p: "parseURL (''https://www.youtube.com/watch?v='' @ v) =
           Some \<lparr>hostname = ''www.youtube.com'', pathname = ''/watch'', searchParams = [(''v'', v)]\<rparr>"
    by (rule parseURL_canonical)
  show "\<exists>u. parseURL (''https://www.youtube.com/watch?v='' @ v) = Some u
           \<and> hostname u = ''www.youtube.com''
           \<and> map_of (searchParams u) ''v'' = Some v"
    unfolding p by simp
qed

lemma sanitizeUrl_canonical:
  assumes "readsBack parse" and "plainId w"
  shows "sanitizeUrl parse (''https://www.youtube.com/watch?v='' @ w) =
      ''https://www.youtube.com/watch?v='' @ w"
proof -
  from assms obtain u' where u': "parse (''https://www.youtube.com/watch?v='' @ w) = Some u'"
      "hostname u' = ''www.youtube.com''" "map_of (searchParams u') ''v'' = Some w"
    unfolding readsBack_def by metis
  have "str_includes ''www.youtube.com'' ''youtube.com''" by simp
  moreover have "''www.youtube.com'' \<noteq> ''youtu.be''" by simp
  ultimately show ?thesis
    unfolding sanitizeUrl_def u'(1) by (simp only: option.case u' if_False if_True) simp
qed

lemma parse_long_link:
  "parseURL ''https://www.youtube.com/watch?v=abc123&t=10'' =
     Some \<lparr>hostname = ''www.youtube.com'', pathname = ''/watch'',
           searchParams = [(''v'', ''abc123''), (''t'', ''10'')]\<rparr>"
  by (simp add: parseURL_def afterScheme_def parseQuery_def Let_def)

lemma parse_short_link:
  "parseURL ''https://youtu.be/abc123'' =
     Some \<lparr>hostname = ''youtu.be'', pathname = ''/abc123'', searchParams = []\<rparr>"
  by (simp add: parseURL_def afterScheme_def parseQuery_def Let_def)

lemma parse_feed:
  "parseURL ''https://www.youtube.com/feed'' =
     Some \<lparr>hostname = ''www.youtube.com'', pathname = ''/feed'', searchParams = []\<rparr>"
  by (simp add: parseURL_def afterScheme_def parseQuery_def Let_def)

lemma parse_direct_example:
  "parseURL ''https://example.com/media/clip.mp4?token=1'' =
     Some \<lparr>hostname = ''example.com'', pathname = ''/media/clip.mp4'',
           searchParams = [(''token'', ''1'')]\<rparr>"
  by (simp add: parseURL_def afterScheme_def parseQuery_def Let_def)

lemma plainId_abc123: "plainId ''abc123''"
  by (simp add: plainId_def)




lemma parse_not_a_url: "parseURL ''not a url'' = None"
  by (simp add: parseURL_def afterScheme_def)

lemma trim_example: "js_trim ''https://example.com/media/clip.mp4?token=1'' \<noteq> []"
  by (simp add: js_trim_def isSpace_def)

lemma not_youtube_example: "\<not> isYoutubeUrl ''https://example.com/media/clip.mp4?token=1''"
  by (simp add: isYoutubeUrl_def)

subsection \<open>Exhaustion of the resolver chain\<close>

text \<open>
  Claim C3, as amended. If every instance fails, \<open>resolveYoutubeUrl\<close> has sent one POST
  to each instance, in list order, and throws an error with a fixed message and no
  cause. The failure of the last instance is what \<open>lastError\<close> holds at that point; it is
  written to the error console and is not part of the error thrown.
\<close>

theorem resolution_exhausted:
  assumes "exhausted P url"
  shows "fst (resolveYoutubeUrl P url) =
           Inl (JsError ''Failed to resolve YouTube URL. The video might be restricted, or servers are busy. Please try again.'' None)
       \<and> posts (snd (resolveYoutubeUrl P url)) = instances
       \<and> isl (attempt P (sanitizeUrl (newURL P) url) (last instances))
       \<and> last (snd (resolveYoutubeUrl P url)) =
           ConsoleError ''All YouTube resolvers failed.''
             (Some (projl (attempt P (sanitizeUrl (newURL P) url) (last instances))))"
proof -
  let ?c = "sanitizeUrl (newURL P) url"
  from assms have all: "\<forall>b \<in> set instances. isl (attempt P ?c b)"
    by (simp add: exhausted_def)
  have t: "tryInstances P ?c instances None =
      (Inl (Some (projl (attempt P ?c (last instances)))), map (resolverCall ?c) instances)"
    using tryInstances_all_fail [OF all, of None] instances_nonempty by simp
  from all instances_nonempty have "isl (attempt P ?c (last instances))" by simp
  with t show ?thesis
    by (simp add: resolveYoutubeUrl_def Let_def newError_def posts_append posts_resolverCalls)
qed

theorem resolution_exhausted_witness:
  "exhausted all_failing ''https://youtu.be/abc123''
 \<and> fst (resolveYoutubeUrl all_failing ''https://youtu.be/abc123'') =
       Inl (JsError ''Failed to resolve YouTube URL. The video might be restricted, or servers are busy. Please try again.'' None)
 \<and> posts (snd (resolveYoutubeUrl all_failing ''https://youtu.be/abc123'')) = instances
 \<and> last (snd (resolveYoutubeUrl all_failing ''https://youtu.be/abc123'')) =
       ConsoleError ''All YouTube resolvers failed.'' (Some (JsError ''rate limited'' None))"
  using resolution_exhausted [OF exhausted_all_failing, of "''https://youtu.be/abc123''"]
        exhausted_all_failing [of "''https://youtu.be/abc123''"]
  by (simp add: attempt_all_failing last_instances newError_def)

text \<open>
  The claim as stated fails: with eight instances answering an HTML page and the last one
  answering \<open>{status: 'error', text: 'rate limited'}\<close>, the error thrown has no cause and
  its message does not mention the failure of the last instance.
\<close>

theorem resolution_exhausted_counterexample:
  "exhausted all_failing ''https://youtu.be/abc123''
 \<and> attempt all_failing ''https://www.youtube.com/watch?v=abc123'' (last instances) =
       Inl (JsError ''rate limited'' None)
 \<and> fst (resolveYoutubeUrl all_failing ''https://youtu.be/abc123'') =
       Inl (JsError ''Failed to resolve YouTube URL. The video might be restricted, or servers are busy. Please try again.'' None)
 \<and> cause (projl (fst (resolveYoutubeUrl all_failing ''https://youtu.be/abc123''))) \<noteq>
       Some (projl (attempt all_failing ''https://www.youtube.com/watch?v=abc123'' (last instances)))
 \<and> \<not> str_includes (message (projl (fst (resolveYoutubeUrl all_failing ''https://youtu.be/abc123''))))
                     ''rate limited''"
proof -
  have t: "tryInstances all_failing c instances None =
      (Inl (Some (JsError ''rate limited'' None)), map (resolverCall c) instances)" for c
    using tryInstances_all_fail [of instances all_failing c None]
    by (simp add: attempt_all_failing instances_nonempty last_instances newError_def)
  have r: "fst (resolveYoutubeUrl all_failing ''https://youtu.be/abc123'') =
       Inl (JsError ''Failed to resolve YouTube URL. The video might be restricted, or servers are busy. Please try again.'' None)"
    by (simp add: resolveYoutubeUrl_def Let_def t newError_def)
  show ?thesis
    by (simp add: r exhausted_all_failing attempt_all_failing last_instances newError_def)
qed

subsection \<open>First success wins\<close>

text \<open>
  Claim C6. \<open>resolveYoutubeUrl\<close> tries the instances of its fixed list one after the other,
  in list order, and stops at the first that succeeds: if the instances before index \<open>k\<close>
  fail and the instance at index \<open>k\<close> returns \<open>u\<close>, the result is \<open>u\<close> and the POSTs sent are
  exactly those to the first \<open>k + 1\<close> instances, in order. For outcomes of the shape fail,
  fail, success (\<open>k = 2\<close>) two failing calls precede the succeeding one and no instance is
  called after it.
\<close>

theorem resolver_stops_at_first_success:
  assumes "k < length instances"
    and "\<forall>j<k. isl (attempt P (sanitizeUrl (newURL P) url) (instances ! j))"
    and "attempt P (sanitizeUrl (newURL P) url) (instances ! k) = Inr u"
  shows "fst (resolveYoutubeUrl P url) = Inr u
       \<and> posts (snd (resolveYoutubeUrl P url)) = take (Suc k) instances"
proof -
  let ?c = "sanitizeUrl (newURL P) url"
  have split: "instances = take k instances @ instances ! k # drop (Suc k) instances"
    using assms(1) by (rule id_take_nth_drop)
  have fails: "\<forall>b \<in> set (take k instances). isl (attempt P ?c b)"
  proof
    fix b assume "b \<in> set (take k instances)"
    then obtain j where "j < k" "b = instances ! j"
      using assms(1) by (auto simp: in_set_conv_nth)
    with assms(2) show "isl (attempt P ?c b)" by simp
  qed
  have "tryInstances P ?c (take k instances @ instances ! k # drop (Suc k) instances) None =
          (Inr u, map (resolverCall ?c) (take k instances @ [instances ! k]))"
    using fails assms(3) by (rule tryInstances_first_success)
  with split have t: "tryInstances P ?c instances None =
          (Inr u, map (resolverCall ?c) (take k instances @ [instances ! k]))" by simp
  have "take k instances @ [instances ! k] = take (Suc k) instances"
    using assms(1) by (simp add: take_Suc_conv_app_nth)
  with t show ?thesis
    by (simp add: resolveYoutubeUrl_def Let_def posts_append posts_resolverCalls
             del: map_append)
qed

theorem resolver_stops_at_first_success_witness:
  "isl (attempt third_succeeds ''https://www.youtube.com/watch?v=abc123'' ''https://co.wuk.sh/api/json'')
 \<and> isl (attempt third_succeeds ''https://www.youtube.com/watch?v=abc123'' ''https://api.succubus.space/api/json'')
 \<and> attempt third_succeeds ''https://www.youtube.com/watch?v=abc123'' ''https://cobalt.kwiatekmiki.pl/api/json'' = Inr ''https://cdn/x.mp4''
 \<and> attempt third_succeeds ''https://www.youtube.com/watch?v=abc123'' ''https://cobalt.qkv.fun/api/json'' = Inr ''https://cdn/x.mp4''
 \<and> fst (resolveYoutubeUrl third_succeeds ''https://youtu.be/abc123'') = Inr ''https://cdn/x.mp4''
 \<and> posts (snd (resolveYoutubeUrl third_succeeds ''https://youtu.be/abc123'')) =
       [''https://co.wuk.sh/api/json'', ''https://api.succubus.space/api/json'',
        ''https://cobalt.kwiatekmiki.pl/api/json'']"
proof -
  have k: "2 < length instances" by (simp add: instances_def)
  have f: "\<forall>j<2. isl (attempt third_succeeds (sanitizeUrl (newURL third_succeeds) ''https://youtu.be/abc123'') (instances ! j))"
    by (auto simp: attempt_third_succeeds instances_def less_2_cases_iff)
  have s: "attempt third_succeeds (sanitizeUrl (newURL third_succeeds) ''https://youtu.be/abc123'') (instances ! 2) = Inr ''https://cdn/x.mp4''"
    by (simp add: attempt_third_succeeds instances_def)
  have t: "take (Suc 2) instances = [''https://co.wuk.sh/api/json'', ''https://api.succubus.space/api/json'',
        ''https://cobalt.kwiatekmiki.pl/api/json'']"
    by (simp add: instances_def)
  from resolver_stops_at_first_success [OF k f s] t show ?thesis
    by (simp add: attempt_third_succeeds)
qed

subsection \<open>The link normalizer\<close>

text \<open>
  Claim C5, as amended. The sanitizing step never fails: it is a total function. It
  returns the reference unchanged when the URL constructor throws, when the host is
  neither \<open>youtu.be\<close> nor one containing \<open>youtube.com\<close>, and when a host other than
  \<open>youtu.be\<close> comes without a non-empty \<open>v\<close> parameter. For every reference whose video
  identifier (the path of a \<open>youtu.be\<close> link without its leading \<open>/\<close>, the \<open>v\<close> parameter of a
  \<open>youtube.com\<close> link) is not empty and consists of letters, digits, \<open>-\<close> and \<open>_\<close> only, the step
  gives the canonical watch link of that identifier, and sanitizing twice gives the same
  as sanitizing once, provided the URL constructor reads such an identifier back from a
  canonical watch link.
\<close>

theorem sanitizeUrl_fallback_and_idempotence:
  "(parse x = None \<longrightarrow> sanitizeUrl parse x = x)
 \<and> (\<forall>u. parse x = Some u \<and> hostname u \<noteq> ''youtu.be''
        \<and> \<not> str_includes (hostname u) ''youtube.com''
      \<longrightarrow> sanitizeUrl parse x = x)
 \<and> (\<forall>u. parse x = Some u \<and> hostname u \<noteq> ''youtu.be''
        \<and> (map_of (searchParams u) ''v'' = None \<or> map_of (searchParams u) ''v'' = Some [])
      \<longrightarrow> sanitizeUrl parse x = x)
 \<and> (\<forall>u. readsBack parse \<and> parse x = Some u \<and> hostname u = ''youtu.be''
        \<and> drop 1 (pathname u) \<noteq> [] \<and> plainId (drop 1 (pathname u))
      \<longrightarrow> sanitizeUrl parse x = ''https://www.youtube.com/watch?v='' @ drop 1 (pathname u)
        \<and> sanitizeUrl parse (sanitizeUrl parse x) = sanitizeUrl parse x)
 \<and> (\<forall>u v. readsBack parse \<and> parse x = Some u \<and> hostname u \<noteq> ''youtu.be''
        \<and> str_includes (hostname u) ''youtube.com''
        \<and> map_of (searchParams u) ''v'' = Some v \<and> v \<noteq> [] \<and> plainId v
      \<longrightarrow> sanitizeUrl parse x = ''https://www.youtube.com/watch?v='' @ v
        \<and> sanitizeUrl parse (sanitizeUrl parse x) = sanitizeUrl parse x)"
proof (intro conjI allI impI)
  show "sanitizeUrl parse x = x" if "parse x = None"
    using that by (simp add: sanitizeUrl_def)
next
  fix u
  assume "parse x = Some u \<and> hostname u \<noteq> ''youtu.be''
        \<and> \<not> str_includes (hostname u) ''youtube.com''"
  then show "sanitizeUrl parse x = x" by (simp add: sanitizeUrl_def)
next
  fix u
  assume "parse x = Some u \<and> hostname u \<noteq> ''youtu.be''
        \<and> (map_of (searchParams u) ''v'' = None \<or> map_of (searchParams u) ''v'' = Some [])"
  then show "sanitizeUrl parse x = x" by (auto simp: sanitizeUrl_def)
next
  fix u
  assume a: "readsBack parse \<and> parse x = Some u \<and> hostname u = ''youtu.be''
      \<and> drop 1 (pathname u) \<noteq> [] \<and> plainId (drop 1 (pathname u))"
  then show s: "sanitizeUrl parse x = ''https://www.youtube.com/watch?v='' @ drop 1 (pathname u)"
    by (simp add: sanitizeUrl_def)
  from a have "sanitizeUrl parse (''https://www.youtube.com/watch?v='' @ drop 1 (pathname u)) =
      ''https://www.youtube.com/watch?v='' @ drop 1 (pathname u)"
    by (intro sanitizeUrl_canonical) simp_all
  then show "sanitizeUrl parse (sanitizeUrl parse x) = sanitizeUrl parse x"
    unfolding s .
next
  fix u v
  assume a: "readsBack parse \<and> parse x = Some u \<and> hostname u \<noteq> ''youtu.be''
      \<and> str_includes (hostname u) ''youtube.com''
      \<and> map_of (searchParams u) ''v'' = Some v \<and> v \<noteq> [] \<and> plainId v"
  then show s: "sanitizeUrl parse x = ''https://www.youtube.com/watch?v='' @ v"
    by (simp add: sanitizeUrl_def)
  from a have "sanitizeUrl parse (''https://www.youtube.com/watch?v='' @ v) =
      ''https://www.youtube.com/watch?v='' @ v"
    by (intro sanitizeUrl_canonical) simp_all
  then show "sanitizeUrl parse (sanitizeUrl parse x) = sanitizeUrl parse x"
    unfolding s .
qed

theorem sanitizeUrl_fallback_and_idempotence_witness:
  "readsBack parseURL
 \<and> sanitizeUrl parseURL ''not a url'' = ''not a url''
 \<and> sanitizeUrl parseURL ''https://example.com/media/clip.mp4?token=1'' =
     ''https://example.com/media/clip.mp4?token=1''
 \<and> sanitizeUrl parseURL ''https://www.youtube.com/feed'' = ''https://www.youtube.com/feed''
 \<and> sanitizeUrl parseURL ''https://youtu.be/abc123'' = ''https://www.youtube.com/watch?v=abc123''
 \<and> sanitizeUrl parseURL (sanitizeUrl parseURL ''https://youtu.be/abc123'') =
     sanitizeUrl parseURL ''https://youtu.be/abc123''
 \<and> sanitizeUrl parseURL ''https://www.youtube.com/watch?v=abc123&t=10'' =
     ''https://www.youtube.com/watch?v=abc123''
 \<and> sanitizeUrl parseURL (sanitizeUrl parseURL ''https://www.youtube.com/watch?v=abc123&t=10'') =
     sanitizeUrl parseURL ''https://www.youtube.com/watch?v=abc123&t=10''"
proof -
  note T = sanitizeUrl_fallback_and_idempotence [where parse = parseURL]
  have 1: "sanitizeUrl parseURL ''not a url'' = ''not a url''"
    using T [of "''not a url''", THEN conjunct1, THEN mp, OF parse_not_a_url] .
  have "parseURL ''https://example.com/media/clip.mp4?token=1'' =
          Some \<lparr>hostname = ''example.com'', pathname = ''/media/clip.mp4'',
                searchParams = [(''token'', ''1'')]\<rparr>
      \<and> hostname \<lparr>hostname = ''example.com'', pathname = ''/media/clip.mp4'',
                searchParams = [(''token'', ''1'')]\<rparr> \<noteq> ''youtu.be''
      \<and> \<not> str_includes (hostname \<lparr>hostname = ''example.com'', pathname = ''/media/clip.mp4'',
                searchParams = [(''token'', ''1'')]\<rparr>) ''youtube.com''"
    by (simp add: parse_direct_example)
  from T [of "''https://example.com/media/clip.mp4?token=1''", THEN conjunct2, THEN conjunct1,
          THEN spec, THEN mp, OF this]
  have 2: "sanitizeUrl parseURL ''https://example.com/media/clip.mp4?token=1'' =
     ''https://example.com/media/clip.mp4?token=1''" .
  have "parseURL ''https://www.youtube.com/feed'' =
          Some \<lparr>hostname = ''www.youtube.com'', pathname = ''/feed'', searchParams = []\<rparr>
      \<and> hostname \<lparr>hostname = ''www.youtube.com'', pathname = ''/feed'', searchParams = []\<rparr> \<noteq> ''youtu.be''
      \<and> (map_of (searchParams \<lparr>hostname = ''www.youtube.com'', pathname = ''/feed'', searchParams = []\<rparr>) ''v'' = None
         \<or> map_of (searchParams \<lparr>hostname = ''www.youtube.com'', pathname = ''/feed'', searchParams = []\<rparr>) ''v'' = Some [])"
    by (simp add: parse_feed)
  from T [of "''https://www.youtube.com/feed''", THEN conjunct2, THEN conjunct2, THEN conjunct1,
          THEN spec, THEN mp, OF this]
  have 3: "sanitizeUrl parseURL ''https://www.youtube.com/feed'' = ''https://www.youtube.com/feed''" .
  have "readsBack parseURL
      \<and> parseURL ''https://youtu.be/abc123'' =
          Some \<lparr>hostname = ''youtu.be'', pathname = ''/abc123'', searchParams = []\<rparr>
      \<and> hostname \<lparr>hostname = ''youtu.be'', pathname = ''/abc123'', searchParams = []\<rparr> = ''youtu.be''
      \<and> drop 1 (pathname \<lparr>hostname = ''youtu.be'', pathname = ''/abc123'', searchParams = []\<rparr>) \<noteq> []
      \<and> plainId (drop 1 (pathname \<lparr>hostname = ''youtu.be'', pathname = ''/abc123'', searchParams = []\<rparr>))"
    by (simp add: readsBack_parseURL parse_short_link plainId_abc123)
  note c = T [of "''https://youtu.be/abc123''", THEN conjunct2, THEN conjunct2, THEN conjunct2,
          THEN conjunct1, THEN spec, THEN mp, OF this]
  from c [THEN conjunct1]
  have 4: "sanitizeUrl parseURL ''https://youtu.be/abc123'' = ''https://www.youtube.com/watch?v=abc123''"
    by simp
  note 5 = c [THEN conjunct2]
  have "readsBack parseURL
      \<and> parseURL ''https://www.youtube.com/watch?v=abc123&t=10'' =
          Some \<lparr>hostname = ''www.youtube.com'', pathname = ''/watch'',
                searchParams = [(''v'', ''abc123''), (''t'', ''10'')]\<rparr>
      \<and> hostname \<lparr>hostname = ''www.youtube.com'', pathname = ''/watch'',
                searchParams = [(''v'', ''abc123''), (''t'', ''10'')]\<rparr> \<noteq> ''youtu.be''
      \<and> str_includes (hostname \<lparr>hostname = ''www.youtube.com'', pathname = ''/watch'',
                searchParams = [(''v'', ''abc123''), (''t'', ''10'')]\<rparr>) ''youtube.com''
      \<and> map_of (searchParams \<lparr>hostname = ''www.youtube.com'', pathname = ''/watch'',
                searchParams = [(''v'', ''abc123''), (''t'', ''10'')]\<rparr>) ''v'' = Some ''abc123''
      \<and> ''abc123'' \<noteq> [] \<and> plainId ''abc123''"
    by (simp add: readsBack_parseURL parse_long_link plainId_abc123)
  note d = T [of "''https://www.youtube.com/watch?v=abc123&t=10''", THEN conjunct2, THEN conjunct2,
          THEN conjunct2, THEN conjunct2, THEN spec, THEN spec, THEN mp, OF this]
  from d [THEN conjunct1]
  have 6: "sanitizeUrl parseURL ''https://www.youtube.com/watch?v=abc123&t=10'' =
     ''https://www.youtube.com/watch?v=abc123''"
    by simp
  note 7 = d [THEN conjunct2]
  from readsBack_parseURL 1 2 3 4 5 6 7 show ?thesis by (intro conjI)
qed

text \<open>
  Idempotence fails for all references: the path of \<open>https://youtu.be/a&v=b\<close> is
  \<open>/a&v=b\<close>, the canonical link built from it has two \<open>v\<close> parameters, and the second pass
  keeps the first of them only. The fallback fails for a short link without identifier:
  \<open>https://youtu.be/\<close> is rewritten to a watch link with an empty \<open>v\<close>, where the branch for
  \<open>youtube.com\<close> hosts keeps a link with an empty \<open>v\<close> as it is.
\<close>

theorem sanitizeUrl_idempotent_counterexample:
  "sanitizeUrl parseURL ''https://youtu.be/a&v=b'' = ''https://www.youtube.com/watch?v=a&v=b''
 \<and> sanitizeUrl parseURL ''https://www.youtube.com/watch?v=a&v=b'' = ''https://www.youtube.com/watch?v=a''
 \<and> sanitizeUrl parseURL (sanitizeUrl parseURL ''https://youtu.be/a&v=b'') \<noteq>
     sanitizeUrl parseURL ''https://youtu.be/a&v=b''
 \<and> sanitizeUrl parseURL ''https://youtu.be/'' = ''https://www.youtube.com/watch?v=''
 \<and> sanitizeUrl parseURL ''https://youtu.be/'' \<noteq> ''https://youtu.be/''"
proof -
  have 1: "sanitizeUrl parseURL ''https://youtu.be/a&v=b'' = ''https://www.youtube.com/watch?v=a&v=b''"
    by (simp add: sanitizeUrl_def parseURL_def afterScheme_def parseQuery_def Let_def)
  have 2: "sanitizeUrl parseURL ''https://www.youtube.com/watch?v=a&v=b'' = ''https://www.youtube.com/watch?v=a''"
    by (simp add: sanitizeUrl_def parseURL_def afterScheme_def parseQuery_def Let_def)
  have 3: "sanitizeUrl parseURL ''https://youtu.be/'' = ''https://www.youtube.com/watch?v=''"
    by (simp add: sanitizeUrl_def parseURL_def afterScheme_def parseQuery_def Let_def)
  show ?thesis by (simp add: 1 2 3)
qed

subsection \<open>The direct fast path\<close>

text \<open>
  Claim C7, as amended. For every reference that is not blank and not classified as a
  YouTube link, if the unproxied fetch of the reference answers with a status in the 2xx
  range, then: when the body of that response can be read, the handler takes that body
  as the blob of the file and calls no proxy, the only network call being the direct
  fetch; when reading the body fails, the handler goes on to the relays, the direct fetch
  being followed at once by the fetch through the first proxy, and the reference is not
  fetched directly again.
\<close>

theorem direct_fast_path:
  assumes "trim P (urlInput a) \<noteq> []" and "\<not> isYoutubeUrl (urlInput a)"
    and "fetch P (Get (urlInput a)) = Resolved res" and "ok res"
  shows "(\<forall>b. blobBody res = Inr b \<longrightarrow>
            map_option (\<lambda>vf. file_blob (file' vf)) (videoFile (fst (handleUrlSubmit P a))) = Some b
          \<and> relays (snd (handleUrlSubmit P a)) = []
          \<and> directs (snd (handleUrlSubmit P a)) = [urlInput a]
          \<and> posts (snd (handleUrlSubmit P a)) = [])
       \<and> (\<forall>e. blobBody res = Inl e \<longrightarrow>
            (\<exists>rest. snd (handleUrlSubmit P a) =
               SetDownloadStatus ''Initializing...'' # SetDownloadStatus ''Downloading video...''
                 # DirectFetch (urlInput a)
                 # ProxyFetch (''https://corsproxy.io/?'' @ encodeURIComponent P (urlInput a))
                 # rest)
          \<and> take 1 (relays (snd (handleUrlSubmit P a))) =
               [''https://corsproxy.io/?'' @ encodeURIComponent P (urlInput a)]
          \<and> directs (snd (handleUrlSubmit P a)) = [urlInput a]
          \<and> posts (snd (handleUrlSubmit P a)) = [])"
proof (intro conjI allI impI)
  fix b assume b: "blobBody res = Inr b"
  with assms(3,4) have d: "directFetch P (urlInput a) = Some b"
    by (simp add: directFetch_def)
  have l: "downloadLoop P False (urlInput a) (proxyStrategies (encodeURIComponent P)) 0 None =
          ((Some b, None), [DirectFetch (urlInput a)])"
    unfolding proxyStrategies_def using d by (rule downloadLoop_direct_ok)
  from assms(1,2) l
  show "map_option (\<lambda>vf. file_blob (file' vf)) (videoFile (fst (handleUrlSubmit P a))) = Some b"
    and "relays (snd (handleUrlSubmit P a)) = []"
    and "directs (snd (handleUrlSubmit P a)) = [urlInput a]"
    and "posts (snd (handleUrlSubmit P a)) = []"
    by (simp_all add: handleUrlSubmit_def handleUrlSubmit_try_def Let_def)
next
  fix e assume e: "blobBody res = Inl e"
  with assms(3,4) have d: "directFetch P (urlInput a) = None"
    by (simp add: directFetch_def)
  let ?px = "''https://corsproxy.io/?'' @ encodeURIComponent P (urlInput a)"
  obtain r tr where l: "downloadLoop P False (urlInput a) (proxyStrategies (encodeURIComponent P)) 0 None = (r, tr)"
    by (cases "downloadLoop P False (urlInput a) (proxyStrategies (encodeURIComponent P)) 0 None")
  from downloadLoop_direct_failed [OF d, of "\<lambda>u. ''https://corsproxy.io/?'' @ encodeURIComponent P u"
      "[\<lambda>u. ''https://api.allorigins.win/raw?url='' @ encodeURIComponent P u,
        \<lambda>u. ''https://thingproxy.freeboard.io/fetch/'' @ u]" None] l
  obtain rest where tr: "tr = DirectFetch (urlInput a) # ProxyFetch ?px # rest" and dr: "directs rest = []"
    by (auto simp: proxyStrategies_def)
  from downloadLoop_posts [of P False "urlInput a" "proxyStrategies (encodeURIComponent P)" 0 None] l tr
  have pr: "posts rest = []" by simp
  have shape: "\<exists>tail. snd (handleUrlSubmit P a) =
      SetDownloadStatus ''Initializing...'' # SetDownloadStatus ''Downloading video...''
        # DirectFetch (urlInput a) # ProxyFetch ?px # rest @ tail
      \<and> directs tail = [] \<and> posts tail = [] \<and> relays tail = []"
    using assms(1,2) l tr
    by (cases r; cases "fst r") (auto simp: handleUrlSubmit_def handleUrlSubmit_try_def Let_def)
  then obtain tail where s: "snd (handleUrlSubmit P a) =
      SetDownloadStatus ''Initializing...'' # SetDownloadStatus ''Downloading video...''
        # DirectFetch (urlInput a) # ProxyFetch ?px # rest @ tail"
    and t: "directs tail = []" "posts tail = []" "relays tail = []" by blast
  from s show "\<exists>rest. snd (handleUrlSubmit P a) =
               SetDownloadStatus ''Initializing...'' # SetDownloadStatus ''Downloading video...''
                 # DirectFetch (urlInput a) # ProxyFetch ?px # rest" by blast
  from s show "take 1 (relays (snd (handleUrlSubmit P a))) = [?px]" by simp
  from s t dr show "directs (snd (handleUrlSubmit P a)) = [urlInput a]" by (simp add: directs_append)
  from s t pr show "posts (snd (handleUrlSubmit P a)) = []" by (simp add: posts_append)
qed

theorem direct_fast_path_witness:
  "map_option (\<lambda>vf. file_blob (file' vf))
     (videoFile (fst (handleUrlSubmit direct_ok (form ''https://example.com/media/clip.mp4?token=1'')))) =
     Some \<lparr>blob_type = [], blob_data = [26, 69, 223, 163]\<rparr>
 \<and> relays (snd (handleUrlSubmit direct_ok (form ''https://example.com/media/clip.mp4?token=1''))) = []
 \<and> directs (snd (handleUrlSubmit direct_ok (form ''https://example.com/media/clip.mp4?token=1''))) =
     [''https://example.com/media/clip.mp4?token=1'']
 \<and> take 1 (relays (snd (handleUrlSubmit body_fails (form ''https://example.com/media/clip.mp4?token=1'')))) =
     [''https://corsproxy.io/?https%3A%2F%2Fexample.com%2Fmedia%2Fclip.mp4%3Ftoken%3D1'']
 \<and> directs (snd (handleUrlSubmit body_fails (form ''https://example.com/media/clip.mp4?token=1''))) =
     [''https://example.com/media/clip.mp4?token=1'']"
proof -
  let ?a = "form ''https://example.com/media/clip.mp4?token=1''"
  have u: "urlInput ?a = ''https://example.com/media/clip.mp4?token=1''" by (simp add: form_def)
  have 1: "trim direct_ok (urlInput ?a) \<noteq> []"
    unfolding u by (simp add: direct_ok_def browser_def trim_example)
  have 2: "\<not> isYoutubeUrl (urlInput ?a)" unfolding u by (rule not_youtube_example)
  have 3: "fetch direct_ok (Get (urlInput ?a)) = Resolved (video_response [])"
    unfolding u by (simp add: direct_ok_def browser_def)
  have 4: "ok (video_response [])" by (simp add: ok_def video_response_def)
  have 5: "blobBody (video_response []) = Inr \<lparr>blob_type = [], blob_data = [26, 69, 223, 163]\<rparr>"
    by (simp add: video_response_def)
  note p = direct_fast_path [OF 1 2 3 4, THEN conjunct1, THEN spec, THEN mp, OF 5]
  let ?r = "(video_response ''video/mp4'')\<lparr>blobBody := Inl (JsError ''network error'' None)\<rparr>"
  have 6: "trim body_fails (urlInput ?a) \<noteq> []"
    unfolding u by (simp add: body_fails_def browser_def trim_example)
  have 7: "fetch body_fails (Get (urlInput ?a)) = Resolved ?r"
    unfolding u by (simp add: body_fails_def browser_def)
  have 8: "ok ?r" by (simp add: ok_def video_response_def)
  have 9: "blobBody ?r = Inl (JsError ''network error'' None)" by simp
  have e: "encodeURIComponent body_fails (urlInput ?a) =
      ''https%3A%2F%2Fexample.com%2Fmedia%2Fclip.mp4%3Ftoken%3D1''"
    unfolding u by (simp add: body_fails_def browser_def encodeBytes_def percentEncode_def unreserved_def)
  note n = direct_fast_path [OF 6 2 7 8, THEN conjunct2, THEN spec, THEN mp, OF 9]
  from n have n1: "take 1 (relays (snd (handleUrlSubmit body_fails ?a))) =
     [''https://corsproxy.io/?https%3A%2F%2Fexample.com%2Fmedia%2Fclip.mp4%3Ftoken%3D1'']"
    unfolding e by simp
  from n have n2: "directs (snd (handleUrlSubmit body_fails ?a)) = [urlInput ?a]" by simp
  from p n1 n2 show ?thesis unfolding u by simp
qed

text \<open>
  Without the condition on the body the claim fails: when the direct fetch answers 200 and
  reading its body is rejected, the empty \<open>catch\<close> swallows the rejection and the same
  iteration goes on to the first proxy.
\<close>

theorem direct_fast_path_counterexample:
  "\<not> isYoutubeUrl ''https://example.com/media/clip.mp4?token=1''
 \<and> fetch body_fails (Get ''https://example.com/media/clip.mp4?token=1'') =
     Resolved ((video_response ''video/mp4'')\<lparr>blobBody := Inl (JsError ''network error'' None)\<rparr>)
 \<and> status ((video_response ''video/mp4'')\<lparr>blobBody := Inl (JsError ''network error'' None)\<rparr>) = 200
 \<and> ok ((video_response ''video/mp4'')\<lparr>blobBody := Inl (JsError ''network error'' None)\<rparr>)
 \<and> snd (handleUrlSubmit body_fails (form ''https://example.com/media/clip.mp4?token=1'')) =
     [SetDownloadStatus ''Initializing...'', SetDownloadStatus ''Downloading video...'',
      DirectFetch ''https://example.com/media/clip.mp4?token=1'',
      ProxyFetch ''https://corsproxy.io/?https%3A%2F%2Fexample.com%2Fmedia%2Fclip.mp4%3Ftoken%3D1'',
      SetDownloadStatus []]
 \<and> relays (snd (handleUrlSubmit body_fails (form ''https://example.com/media/clip.mp4?token=1''))) \<noteq> []"
proof -
  have e: "encodeBytes ''https://example.com/media/clip.mp4?token=1'' =
      ''https%3A%2F%2Fexample.com%2Fmedia%2Fclip.mp4%3Ftoken%3D1''"
    by (simp add: encodeBytes_def percentEncode_def unreserved_def)
  have d: "directFetch body_fails ''https://example.com/media/clip.mp4?token=1'' = None"
    by (simp add: directFetch_def body_fails_def browser_def video_response_def ok_def)
  have p: "proxyFetch body_fails ''https://corsproxy.io/?https%3A%2F%2Fexample.com%2Fmedia%2Fclip.mp4%3Ftoken%3D1'' =
      Inr \<lparr>blob_type = ''video/mp4'', blob_data = [26, 69, 223, 163]\<rparr>"
    by (simp add: proxyFetch_def body_fails_def browser_def video_response_def ok_def)
  have enc: "encodeURIComponent body_fails = encodeBytes" by (simp add: body_fails_def browser_def)
  have tb: "trim body_fails = js_trim" by (simp add: body_fails_def browser_def)
  have t: "snd (handleUrlSubmit body_fails (form ''https://example.com/media/clip.mp4?token=1'')) =
     [SetDownloadStatus ''Initializing...'', SetDownloadStatus ''Downloading video...'',
      DirectFetch ''https://example.com/media/clip.mp4?token=1'',
      ProxyFetch ''https://corsproxy.io/?https%3A%2F%2Fexample.com%2Fmedia%2Fclip.mp4%3Ftoken%3D1'',
      SetDownloadStatus []]"
    using trim_example not_youtube_example
    by (simp add: handleUrlSubmit_def handleUrlSubmit_try_def form_def Let_def
                  proxyStrategies_def enc tb e d p)
  show ?thesis
    by (simp add: t not_youtube_example)
       (simp add: body_fails_def browser_def video_response_def ok_def)
qed

subsection \<open>Name and type of the acquired file\<close>




subsection \<open>Classification of a reference\<close>

text \<open>
  Claim C9. A reference is classified as a YouTube link if and only if the raw string
  contains \<open>youtube.com\<close> or \<open>youtu.be\<close> somewhere. The handler routes by this test alone:
  a classified reference that is not blank goes to the resolver chain first (the first
  network call is the POST to the first instance) and is never fetched directly, also
  when it is a direct media URL that merely contains one of the two strings; a reference
  that is not classified is fetched directly first and never goes to the resolver.
\<close>

theorem youtube_classification:
  "(isYoutubeUrl url \<longleftrightarrow>
      (\<exists>pre post. url = pre @ ''youtube.com'' @ post) \<or> (\<exists>pre post. url = pre @ ''youtu.be'' @ post))
 \<and> (isYoutubeUrl (urlInput a) \<and> trim P (urlInput a) \<noteq> [] \<longrightarrow>
      directs (snd (handleUrlSubmit P a)) = []
    \<and> take 1 (posts (snd (handleUrlSubmit P a))) = [''https://co.wuk.sh/api/json'']
    \<and> (\<exists>rest. snd (handleUrlSubmit P a) =
          SetDownloadStatus ''Initializing...'' # SetDownloadStatus ''Resolving YouTube stream...''
            # snd (resolveYoutubeUrl P (urlInput a)) @ rest))
 \<and> (\<not> isYoutubeUrl (urlInput a) \<and> trim P (urlInput a) \<noteq> [] \<longrightarrow>
      posts (snd (handleUrlSubmit P a)) = []
    \<and> take 1 (directs (snd (handleUrlSubmit P a))) = [urlInput a])"
proof (intro conjI impI)
  show "isYoutubeUrl url \<longleftrightarrow>
      (\<exists>pre post. url = pre @ ''youtube.com'' @ post) \<or> (\<exists>pre post. url = pre @ ''youtu.be'' @ post)"
    by (simp add: isYoutubeUrl_def str_includes_iff)
next
  assume a: "isYoutubeUrl (urlInput a) \<and> trim P (urlInput a) \<noteq> []"
  obtain r tr where r: "resolveYoutubeUrl P (urlInput a) = (r, tr)"
    by (cases "resolveYoutubeUrl P (urlInput a)")
  from resolve_directs [of P "urlInput a"] r have dtr: "directs tr = []" by simp
  from resolve_first_post [of P "urlInput a"] r
  have ptr: "take 1 (posts tr) = [''https://co.wuk.sh/api/json'']" by simp
  then have ne: "posts tr \<noteq> []" by auto
  obtain d tr2 where d: "downloadLoop P True (projr r) (proxyStrategies (encodeURIComponent P)) 0 None = (d, tr2)"
    by (cases "downloadLoop P True (projr r) (proxyStrategies (encodeURIComponent P)) 0 None")
  from downloadLoop_indirect_directs [of P "projr r" "proxyStrategies (encodeURIComponent P)" 0 None] d
  have dtr2: "directs tr2 = []" by simp
  from downloadLoop_posts [of P True "projr r" "proxyStrategies (encodeURIComponent P)" 0 None] d
  have ptr2: "posts tr2 = []" by simp
  from ne have ln: "Suc 0 \<le> length (posts tr)" by (cases "posts tr") auto
  show "directs (snd (handleUrlSubmit P a)) = []"
    using a r d dtr dtr2
    by (cases r; cases d; cases "fst d")
       (auto simp: handleUrlSubmit_def handleUrlSubmit_try_def Let_def directs_append)
  show "take 1 (posts (snd (handleUrlSubmit P a))) = [''https://co.wuk.sh/api/json'']"
    using a r d ptr ln ptr2
    by (cases r; cases d; cases "fst d")
       (auto simp: handleUrlSubmit_def handleUrlSubmit_try_def Let_def posts_append)
  show "\<exists>rest. snd (handleUrlSubmit P a) =
          SetDownloadStatus ''Initializing...'' # SetDownloadStatus ''Resolving YouTube stream...''
            # snd (resolveYoutubeUrl P (urlInput a)) @ rest"
    using a r d
    by (cases r; cases d; cases "fst d")
       (auto simp: handleUrlSubmit_def handleUrlSubmit_try_def Let_def)
next
  assume a: "\<not> isYoutubeUrl (urlInput a) \<and> trim P (urlInput a) \<noteq> []"
  obtain d tr2 where d: "downloadLoop P False (urlInput a) (proxyStrategies (encodeURIComponent P)) 0 None = (d, tr2)"
    by (cases "downloadLoop P False (urlInput a) (proxyStrategies (encodeURIComponent P)) 0 None")
  from downloadLoop_posts [of P False "urlInput a" "proxyStrategies (encodeURIComponent P)" 0 None] d
  have p2: "posts tr2 = []" by simp
  have "take 1 (directs (snd (downloadLoop P False (urlInput a) (proxyStrategies (encodeURIComponent P)) 0 None))) = [urlInput a]"
    unfolding proxyStrategies_def by (rule downloadLoop_first_direct)
  with d have d2: "take 1 (directs tr2) = [urlInput a]" by simp
  show "posts (snd (handleUrlSubmit P a)) = []"
    using a d p2
    by (cases d; cases "fst d")
       (auto simp: handleUrlSubmit_def handleUrlSubmit_try_def Let_def posts_append)
  from d2 have ld: "Suc 0 \<le> length (directs tr2)" by (cases "directs tr2") auto
  show "take 1 (directs (snd (handleUrlSubmit P a))) = [urlInput a]"
    using a d d2 ld
    by (cases d; cases "fst d")
       (auto simp: handleUrlSubmit_def handleUrlSubmit_try_def Let_def directs_append)
qed

theorem youtube_classification_witness:
  "isYoutubeUrl ''https://cdn.example.com/v.mp4?ref=youtube.com''
 \<and> directs (snd (handleUrlSubmit all_failing (form ''https://cdn.example.com/v.mp4?ref=youtube.com''))) = []
 \<and> take 1 (posts (snd (handleUrlSubmit all_failing (form ''https://cdn.example.com/v.mp4?ref=youtube.com'')))) =
     [''https://co.wuk.sh/api/json'']
 \<and> \<not> isYoutubeUrl ''https://example.com/media/clip.mp4?token=1''
 \<and> posts (snd (handleUrlSubmit direct_ok (form ''https://example.com/media/clip.mp4?token=1''))) = []"
proof -
  let ?u = "''https://cdn.example.com/v.mp4?ref=youtube.com''"
  have y: "isYoutubeUrl ?u" by (simp add: isYoutubeUrl_def)
  have t: "trim all_failing ?u \<noteq> []"
    by (simp add: all_failing_def browser_def js_trim_def isSpace_def)
  have t': "trim direct_ok ''https://example.com/media/clip.mp4?token=1'' \<noteq> []"
    by (simp add: direct_ok_def browser_def trim_example)
  have u: "urlInput (form x) = x" for x by (simp add: form_def)
  from youtube_classification [of ?u "form ?u" all_failing] y t u
  have 1: "directs (snd (handleUrlSubmit all_failing (form ?u))) = []
    \<and> take 1 (posts (snd (handleUrlSubmit all_failing (form ?u)))) = [''https://co.wuk.sh/api/json'']"
    by simp
  from youtube_classification [of ?u "form ''https://example.com/media/clip.mp4?token=1''" direct_ok]
    not_youtube_example t' u
  have 2: "posts (snd (handleUrlSubmit direct_ok (form ''https://example.com/media/clip.mp4?token=1''))) = []"
    by simp
  from y 1 2 not_youtube_example show ?thesis by simp
qed

end
